theory Spec2Isabelle
  imports Main "HOL-Library.Sublist"
begin

section \<open>Git sync orchestration of the Insomnia UI\<close>

text \<open>
  The two components that drive the Git engine are embedded here: the sync dropdown
  (\<^verbatim>\<open>GitSyncDropdown\<close>, with \<^verbatim>\<open>_refreshState\<close>, \<^verbatim>\<open>_handlePull\<close>, \<^verbatim>\<open>_handlePush\<close>,
  \<^verbatim>\<open>_handleCheckoutBranch\<close>, \<^verbatim>\<open>render\<close>) and the branches modal
  (\<^verbatim>\<open>GitBranchesModalClass\<close> in \<^verbatim>\<open>git-branches-modal.tsx\<close>). Isabelle names cannot start
  with an underscore, so \<^verbatim>\<open>_handlePull\<close> is \<open>handlePull\<close> and so on.

  An \<^verbatim>\<open>async\<close> method is a function from the state before the call to its outcome and
  the state after it. The outcome is \<open>Inr\<close> of the value the promise resolves with, or
  \<open>Inl\<close> of the error it rejects with. Everything the method did before it threw stays
  in the state.
\<close>

subsection \<open>Errors and asynchronous methods\<close>

text \<open>A thrown JavaScript error; the handlers read \<^verbatim>\<open>err.code\<close> and \<^verbatim>\<open>err.message\<close>.\<close>

datatype js_error = JsError (err_code: "string option") (err_message: string)

type_synonym ('s, 'a) async = "'s \<Rightarrow> (js_error + 'a) \<times> 's"

definition resolve :: "'a \<Rightarrow> ('s, 'a) async" where
  "resolve x s = (Inr x, s)"

definition throw :: "js_error \<Rightarrow> ('s, 'a) async" where
  "throw e s = (Inl e, s)"

text \<open>\<open>await m f\<close>: run \<open>m\<close>; when it rejects, so does the whole; otherwise go on with \<open>f\<close>.\<close>

definition await :: "('s, 'a) async \<Rightarrow> ('a \<Rightarrow> ('s, 'b) async) \<Rightarrow> ('s, 'b) async" where
  "await m f s = (case m s of (Inl e, s') \<Rightarrow> (Inl e, s') | (Inr x, s') \<Rightarrow> f x s')"

text \<open>\<^verbatim>\<open>try { m } catch (err) { h(err) }\<close>\<close>

definition tryCatch :: "('s, 'a) async \<Rightarrow> (js_error \<Rightarrow> ('s, 'a) async) \<Rightarrow> ('s, 'a) async" where
  "tryCatch m h s = (case m s of (Inl e, s') \<Rightarrow> h e s' | (Inr x, s') \<Rightarrow> (Inr x, s'))"

subsection \<open>Data\<close>

text \<open>
  A \<^verbatim>\<open>GitLogEntry\<close>, with the fields the components read:
  \<^verbatim>\<open>log[0].commit.author.name\<close> and \<^verbatim>\<open>log[0].commit.author.timestamp\<close>. The timestamp is a
  whole number of seconds, one that a double holds.
\<close>

record Author =
  name :: string
  timestamp :: int

record Commit =
  author :: Author

record GitLogEntry =
  commit :: Commit

text \<open>
  JavaScript numbers are IEEE 754 doubles. The numbers that occur here are whole, so a
  number is an integer that a double holds, or an infinity. The product of two whole
  numbers is their exact product rounded to a significand of 53 bits, a tie going to the
  even significand, and an infinity when the rounded value is beyond the largest double.
  \<open>bitLength n\<close> is the number of binary digits of \<open>n\<close>; up to 53 of them nothing is
  dropped (the subtraction on \<open>nat\<close> stops at 0).
\<close>

datatype number = Number int | Infinity | MinusInfinity

fun bitLength :: "nat \<Rightarrow> nat" where
  "bitLength n = (if n = 0 then 0 else Suc (bitLength (n div 2)))"

definition maxDouble :: int where
  "maxDouble = (2 ^ 53 - 1) * 2 ^ 971"

definition roundToDouble :: "int \<Rightarrow> number" where
  "roundToDouble n =
     (let a = nat \<bar>n\<bar>;
          e = bitLength a - 53;
          q = a div 2 ^ e;
          r = a mod 2 ^ e;
          q' = (if 2 * r > 2 ^ e \<or> (2 * r = 2 ^ e \<and> odd q) then q + 1 else q);
          m = int (q' * 2 ^ e)
      in if m > maxDouble then (if n < 0 then MinusInfinity else Infinity)
         else Number (if n < 0 then - m else m))"

definition jsTimes :: "int \<Rightarrow> int \<Rightarrow> number" where
  "jsTimes x y = roundToDouble (x * y)"

text \<open>
  The three cached fields of the workspace metadata; \<open>None\<close> is \<^verbatim>\<open>null\<close>. The record is also
  the patch that \<^verbatim>\<open>updateByParentId\<close> receives, as both calls of it pass exactly these
  three fields.
\<close>

record CachedGit =
  cachedGitRepositoryBranch :: "string option"
  cachedGitLastAuthor :: "string option"
  cachedGitLastCommitTime :: "number option"

record WorkspaceMeta = CachedGit +
  gitRepositoryId :: "string option"

record Workspace =
  workspace_id :: string

text \<open>The type \<open>'k\<close> stands for the credentials of a repository, which are only passed on.\<close>

record 'k GitRepository =
  credentials :: 'k

subsection \<open>The engine and the other collaborators\<close>

text \<open>
  \<^verbatim>\<open>GitVCS\<close> is imported from \<^verbatim>\<open>sync/git/git-vcs\<close>; the components only call it. It is a
  parameter here: one function per method, over an engine state of any type \<open>'v\<close>. Each
  asynchronous method may resolve or reject and may change the engine state.
  \<^verbatim>\<open>log()\<close> may resolve with a falsy value (\<open>None\<close>), which \<^verbatim>\<open>(await vcs.log()) || []\<close>
  replaces by the empty list.
\<close>

record ('v, 'k) GitVCS =
  vcs_isInitialized :: "'v \<Rightarrow> bool"
  vcs_getBranch :: "'v \<Rightarrow> (js_error + string) \<times> 'v"
  vcs_listBranches :: "'v \<Rightarrow> (js_error + string list) \<times> 'v"
  vcs_listRemoteBranches :: "'v \<Rightarrow> (js_error + string list) \<times> 'v"
  vcs_log :: "'v \<Rightarrow> (js_error + GitLogEntry list option) \<times> 'v"
  vcs_checkout :: "string \<Rightarrow> 'v \<Rightarrow> (js_error + unit) \<times> 'v"
  vcs_merge :: "string \<Rightarrow> 'v \<Rightarrow> (js_error + unit) \<times> 'v"
  vcs_deleteBranch :: "string \<Rightarrow> 'v \<Rightarrow> (js_error + unit) \<times> 'v"
  vcs_canPush :: "'k \<Rightarrow> 'v \<Rightarrow> (js_error + bool) \<times> 'v"
  vcs_push :: "'k \<Rightarrow> bool \<Rightarrow> 'v \<Rightarrow> (js_error + unit) \<times> 'v"
  vcs_pull :: "'k \<Rightarrow> 'v \<Rightarrow> (js_error + unit) \<times> 'v"
  vcs_fetch :: "bool \<Rightarrow> nat \<Rightarrow> 'k \<Rightarrow> 'v \<Rightarrow> (js_error + unit) \<times> 'v"

text \<open>The asynchronous engine calls, as they appear in the trace.\<close>

datatype 'k vcs_call =
    GetBranch
  | ListBranches
  | ListRemoteBranches
  | Log
  | Checkout string
  | Merge string
  | DeleteBranch string
  | CanPush 'k
  | Push 'k bool
  | Pull 'k
  | Fetch bool nat 'k

text \<open>
  The callbacks of the dropdown that are handed to other code: the \<^verbatim>\<open>onClick\<close> of a menu
  item, \<^verbatim>\<open>onConfirm\<close> of an alert, \<^verbatim>\<open>onHide\<close> and \<^verbatim>\<open>onCommit\<close> of a modal.
  \<open>HandlePush force\<close> is \<^verbatim>\<open>this._handlePush\<close> called with that \<^verbatim>\<open>force\<close>.
\<close>

datatype callback =
    HandleConfig
  | HandleManageBranches
  | HandleCheckoutBranch string
  | HandleCommit
  | HandlePush bool
  | HandlePull
  | HandleLog
  | RefreshState

text \<open>
  What a handler does to its collaborators, in order. \<open>FlushChanges id flag\<close> is
  \<^verbatim>\<open>db.flushChanges(id, flag)\<close>; the flag is the one the specification calls
  \<^verbatim>\<open>notify\<close>, and a call without it has \<open>False\<close>. \<open>TrackSegmentEvent action msg\<close> is the
  telemetry call for the Git action with the error message, if any (the provider name it
  also carries is left out).
\<close>

datatype 'k event =
    BufferChanges nat
  | FlushChanges nat bool
  | GetOrCreateByParentId string
  | UpdateByParentId string CachedGit
  | Vcs "'k vcs_call"
  | ShowError string js_error
  | ShowAlert string string "string option" bool "callback option"
  | TrackSegmentEvent string "string option"
  | InitializeEntities
  | DropdownHide
  | ShowModal string "callback option"
  | UpdateGitRepository
  | SetupGitRepository string
  | ModalShow
  | SetTimeoutFocus nat

text \<open>
  Everything outside a component: the engine state, the stored metadata per workspace id,
  the counter of the database buffer and the trace of the calls made so far (the latest
  last).
\<close>

record ('v, 'k) world =
  vcs :: 'v
  workspaceMetas :: "string \<Rightarrow> WorkspaceMeta"
  bufferChangesId :: nat
  trace :: "'k event list"

text \<open>A mounted component: its React state \<open>'c\<close> and the world around it.\<close>

record ('c, 'v, 'k) component =
  state :: 'c
  world :: "('v, 'k) world"

definition emit :: "'k event \<Rightarrow> (('c, 'v, 'k) component, unit) async" where
  "emit e s = (Inr (), s\<lparr>world := (world s)\<lparr>trace := trace (world s) @ [e]\<rparr>\<rparr>)"

definition setState :: "('c \<Rightarrow> 'c) \<Rightarrow> (('c, 'v, 'k) component, unit) async" where
  "setState f s = (Inr (), s\<lparr>state := f (state s)\<rparr>)"

text \<open>
  A call of an asynchronous engine method: the call is recorded, the engine moves to its
  next state, and the call resolves or rejects as the engine says.
\<close>

definition engine ::
  "'k vcs_call \<Rightarrow> ('v \<Rightarrow> (js_error + 'a) \<times> 'v) \<Rightarrow> (('c, 'v, 'k) component, 'a) async" where
  "engine c m s =
     (case m (vcs (world s)) of
        (r, v') \<Rightarrow> (r, s\<lparr>world := (world s)\<lparr>vcs := v', trace := trace (world s) @ [Vcs c]\<rparr>\<rparr>))"

text \<open>\<^verbatim>\<open>vcs.isInitialized()\<close> is synchronous and only reads the engine.\<close>

definition isInitialized :: "('v, 'k) GitVCS \<Rightarrow> (('c, 'v, 'k) component, bool) async" where
  "isInitialized G s = (Inr (vcs_isInitialized G (vcs (world s))), s)"

text \<open>
  Modelled from the spec: \<^verbatim>\<open>db.bufferChanges\<close> and \<^verbatim>\<open>db.flushChanges\<close> of
  \<^verbatim>\<open>common/database\<close>, which is not among the sources. \<^verbatim>\<open>bufferChanges() -> BufferId\<close>
  opens a buffer and returns its id, here the next value of a counter;
  \<^verbatim>\<open>flushChanges(BufferId, notify?: bool)\<close> closes it.
\<close>

definition bufferChanges :: "(('c, 'v, 'k) component, nat) async" where
  "bufferChanges s =
     (let i = Suc (bufferChangesId (world s))
      in (Inr i, s\<lparr>world := (world s)\<lparr>bufferChangesId := i,
                                       trace := trace (world s) @ [BufferChanges i]\<rparr>\<rparr>))"

definition flushChanges :: "nat \<Rightarrow> bool \<Rightarrow> (('c, 'v, 'k) component, unit) async" where
  "flushChanges i notify = emit (FlushChanges i notify)"

text \<open>
  Modelled from the spec: \<^verbatim>\<open>models.workspaceMeta.getOrCreateByParentId\<close> and
  \<^verbatim>\<open>updateByParentId\<close>, which are not among the sources. \<open>workspaceMetas w i\<close> is the record
  that \<^verbatim>\<open>getOrCreateByParentId(i)\<close> yields: the stored one, or the one it creates.
  \<^verbatim>\<open>updateByParentId(i, patch)\<close> overwrites the fields of the patch in it.
\<close>

definition getOrCreateByParentId :: "string \<Rightarrow> (('c, 'v, 'k) component, WorkspaceMeta) async" where
  "getOrCreateByParentId i s =
     (Inr (workspaceMetas (world s) i),
      s\<lparr>world := (world s)\<lparr>trace := trace (world s) @ [GetOrCreateByParentId i]\<rparr>\<rparr>)"

definition applyPatch :: "CachedGit \<Rightarrow> WorkspaceMeta \<Rightarrow> WorkspaceMeta" where
  "applyPatch p m =
     m\<lparr>cachedGitRepositoryBranch := cachedGitRepositoryBranch p,
       cachedGitLastAuthor := cachedGitLastAuthor p,
       cachedGitLastCommitTime := cachedGitLastCommitTime p\<rparr>"

definition updateByParentId :: "string \<Rightarrow> CachedGit \<Rightarrow> (('c, 'v, 'k) component, unit) async" where
  "updateByParentId i p s =
     (Inr (),
      s\<lparr>world := (world s)\<lparr>workspaceMetas := (workspaceMetas (world s))(i := applyPatch p (workspaceMetas (world s) i)),
                           trace := trace (world s) @ [UpdateByParentId i p]\<rparr>\<rparr>)"

text \<open>
  \<^verbatim>\<open>isNotNullOrUndefined\<close> of \<^verbatim>\<open>common/misc\<close>, and the truthiness of a string that may be
  \<^verbatim>\<open>null\<close>: \<^verbatim>\<open>null\<close> and the empty string are falsy.
\<close>

definition isNotNullOrUndefined :: "'a option \<Rightarrow> bool" where
  "isNotNullOrUndefined x = (x \<noteq> None)"

definition truthy :: "string option \<Rightarrow> bool" where
  "truthy x = (case x of None \<Rightarrow> False | Some t \<Rightarrow> t \<noteq> [])"

subsection \<open>The sync dropdown\<close>

record State =
  initializing :: bool
  loadingPush :: bool
  loadingPull :: bool
  log :: "GitLogEntry list"
  branch :: string
  branches :: "string list"

record 'k Props =
  workspace :: Workspace
  gitRepository :: "'k GitRepository option"

text \<open>
  \<^verbatim>\<open>_refreshState()\<close>. Every call in the component passes no \<^verbatim>\<open>otherState\<close>, so the
  parameter is left out.
\<close>

definition refreshState ::
  "('v, 'k) GitVCS \<Rightarrow> 'k Props \<Rightarrow> ((State, 'v, 'k) component, unit) async" where
  "refreshState G p =
     await (getOrCreateByParentId (workspace_id (workspace p))) (\<lambda>workspaceMeta.
     await (isInitialized G) (\<lambda>initialized.
       if \<not> initialized \<or> \<not> truthy (gitRepositoryId workspaceMeta) then
         (let needsUpdate =
                list_ex (\<lambda>x. x)
                  [isNotNullOrUndefined (cachedGitRepositoryBranch workspaceMeta),
                   isNotNullOrUndefined (cachedGitLastAuthor workspaceMeta),
                   isNotNullOrUndefined (cachedGitLastCommitTime workspaceMeta)]
          in if needsUpdate then
               updateByParentId (workspace_id (workspace p))
                 \<lparr>cachedGitRepositoryBranch = None,
                  cachedGitLastAuthor = None,
                  cachedGitLastCommitTime = None\<rparr>
             else resolve ())
       else
         await (engine GetBranch (vcs_getBranch G)) (\<lambda>b.
         await (engine ListBranches (vcs_listBranches G)) (\<lambda>bs.
         await (engine Log (vcs_log G)) (\<lambda>l.
           let entries = (case l of None \<Rightarrow> [] | Some es \<Rightarrow> es)
           in await (setState (\<lambda>st. st\<lparr>log := entries, branch := b, branches := bs\<rparr>)) (\<lambda>_.
              let a = (case entries of [] \<Rightarrow> None | e # _ \<Rightarrow> Some (author (commit e)))
              in updateByParentId (workspace_id (workspace p))
                   \<lparr>cachedGitRepositoryBranch = Some b,
                    cachedGitLastAuthor = (case a of None \<Rightarrow> None | Some x \<Rightarrow> Some (name x)),
                    cachedGitLastCommitTime =
                      (case a of None \<Rightarrow> None
                       | Some x \<Rightarrow> Some (jsTimes (timestamp x) 1000))\<rparr>))))))"

text \<open>\<^verbatim>\<open>showError({ title, error })\<close> and \<^verbatim>\<open>showAlert({ title, message })\<close> of \<^verbatim>\<open>../modals\<close>.\<close>

definition showError :: "string \<Rightarrow> js_error \<Rightarrow> (('c, 'v, 'k) component, unit) async" where
  "showError title err = emit (ShowError title err)"

definition showAlert ::
  "string \<Rightarrow> string \<Rightarrow> string option \<Rightarrow> bool \<Rightarrow> callback option \<Rightarrow>
   (('c, 'v, 'k) component, unit) async" where
  "showAlert title msg okLabel addCancel onConfirm =
     emit (ShowAlert title msg okLabel addCancel onConfirm)"

definition trackSegmentEvent ::
  "string \<Rightarrow> string option \<Rightarrow> (('c, 'v, 'k) component, unit) async" where
  "trackSegmentEvent action msg = emit (TrackSegmentEvent action msg)"

definition handleInitializeEntities :: "(('c, 'v, 'k) component, unit) async" where
  "handleInitializeEntities = emit InitializeEntities"

text \<open>\<^verbatim>\<open>_handlePull()\<close>\<close>

definition handlePull ::
  "('v, 'k) GitVCS \<Rightarrow> 'k Props \<Rightarrow> ((State, 'v, 'k) component, unit) async" where
  "handlePull G p =
     await (setState (\<lambda>st. st\<lparr>loadingPull := True\<rparr>)) (\<lambda>_.
     case gitRepository p of
       None \<Rightarrow> throw (JsError None ''Tried to pull without configuring git repo'')
     | Some repo \<Rightarrow>
         await bufferChanges (\<lambda>bufferId.
         await (tryCatch
                  (await (engine (Pull (credentials repo)) (vcs_pull G (credentials repo))) (\<lambda>_.
                   trackSegmentEvent ''pull'' None))
                  (\<lambda>err.
                     await (showError ''Error Pulling Repository'' err) (\<lambda>_.
                     trackSegmentEvent ''pull'' (Some (err_message err))))) (\<lambda>_.
         await (flushChanges bufferId False) (\<lambda>_.
         setState (\<lambda>st. st\<lparr>loadingPull := False\<rparr>)))))"

text \<open>
  \<^verbatim>\<open>_handlePush(_e, force = false)\<close>. The first \<^verbatim>\<open>try\<close> yields \<open>Some canPush\<close>, or \<open>None\<close>
  when its \<^verbatim>\<open>catch\<close> block has returned from the handler. \<^verbatim>\<open>this._dropdown?.hide()\<close> is
  taken with the reference set, as it is once the dropdown is mounted.
\<close>

definition handlePush ::
  "('v, 'k) GitVCS \<Rightarrow> 'k Props \<Rightarrow> bool \<Rightarrow> ((State, 'v, 'k) component, unit) async" where
  "handlePush G p force =
     await (setState (\<lambda>st. st\<lparr>loadingPush := True\<rparr>)) (\<lambda>_.
     case gitRepository p of
       None \<Rightarrow> throw (JsError None ''Tried to push without configuring git repo'')
     | Some repo \<Rightarrow>
         await (tryCatch
                  (await (engine (CanPush (credentials repo)) (vcs_canPush G (credentials repo)))
                     (\<lambda>c. resolve (Some c)))
                  (\<lambda>err.
                     await (showError ''Error Pushing Repository'' err) (\<lambda>_.
                     await (setState (\<lambda>st. st\<lparr>loadingPush := False\<rparr>)) (\<lambda>_.
                     resolve None)))) (\<lambda>checked.
         case checked of
           None \<Rightarrow> resolve ()
         | Some canPush \<Rightarrow>
             if \<not> canPush then
               await (showAlert ''Push Skipped''
                        ''Everything up-to-date. Nothing was pushed to the remote''
                        None False None) (\<lambda>_.
               setState (\<lambda>st. st\<lparr>loadingPush := False\<rparr>))
             else
               await bufferChanges (\<lambda>bufferId.
               await (tryCatch
                        (await (engine (Push (credentials repo) force)
                                  (vcs_push G (credentials repo) force)) (\<lambda>_.
                         trackSegmentEvent (if force then ''force_push'' else ''push'') None))
                        (\<lambda>err.
                           if err_code err = Some ''PushRejectedError'' then
                             await (emit DropdownHide) (\<lambda>_.
                             showAlert ''Push Rejected'' ''Do you want to force push?''
                               (Some ''Force Push'') True (Some (HandlePush True)))
                           else
                             await (showError ''Error Pushing Repository'' err) (\<lambda>_.
                             trackSegmentEvent (if force then ''force_push'' else ''push'')
                               (Some (err_message err))))) (\<lambda>_.
               await (flushChanges bufferId False) (\<lambda>_.
               setState (\<lambda>st. st\<lparr>loadingPush := False\<rparr>))))))"

text \<open>\<^verbatim>\<open>_handleCheckoutBranch(branch)\<close>\<close>

definition handleCheckoutBranch ::
  "('v, 'k) GitVCS \<Rightarrow> 'k Props \<Rightarrow> string \<Rightarrow> ((State, 'v, 'k) component, unit) async" where
  "handleCheckoutBranch G p b =
     await bufferChanges (\<lambda>bufferId.
     await (tryCatch (engine (Checkout b) (vcs_checkout G b))
                     (\<lambda>err. showError ''Checkout Error'' err)) (\<lambda>_.
     await (flushChanges bufferId True) (\<lambda>_.
     await handleInitializeEntities (\<lambda>_.
     refreshState G p))))"

text \<open>The handlers that only open a modal or dispatch an action.\<close>

definition handleOpen ::
  "('v, 'k) GitVCS \<Rightarrow> 'k Props \<Rightarrow> ((State, 'v, 'k) component, unit) async" where
  "handleOpen G p = refreshState G p"

definition handleConfig :: "'k Props \<Rightarrow> ((State, 'v, 'k) component, unit) async" where
  "handleConfig p =
     (case gitRepository p of
        Some repo \<Rightarrow> emit UpdateGitRepository
      | None \<Rightarrow> emit (SetupGitRepository (workspace_id (workspace p))))"

definition handleLog :: "((State, 'v, 'k) component, unit) async" where
  "handleLog = emit (ShowModal ''GitLogModal'' None)"

definition handleCommit :: "((State, 'v, 'k) component, unit) async" where
  "handleCommit = emit (ShowModal ''GitStagingModal'' (Some RefreshState))"

definition handleManageBranches :: "((State, 'v, 'k) component, unit) async" where
  "handleManageBranches = emit (ShowModal ''GitBranchesModal'' (Some RefreshState))"

text \<open>What calling a callback of the dropdown runs.\<close>

definition invoke ::
  "('v, 'k) GitVCS \<Rightarrow> 'k Props \<Rightarrow> callback \<Rightarrow> ((State, 'v, 'k) component, unit) async" where
  "invoke G p cb =
     (case cb of
        HandleConfig \<Rightarrow> handleConfig p
      | HandleManageBranches \<Rightarrow> handleManageBranches
      | HandleCheckoutBranch b \<Rightarrow> handleCheckoutBranch G p b
      | HandleCommit \<Rightarrow> handleCommit
      | HandlePush force \<Rightarrow> handlePush G p force
      | HandlePull \<Rightarrow> handlePull G p
      | HandleLog \<Rightarrow> handleLog
      | RefreshState \<Rightarrow> refreshState G p)"

text \<open>
  \<^verbatim>\<open>render()\<close>: the button and the menu entries in order, each item with its label, its
  \<^verbatim>\<open>onClick\<close> and whether it is disabled. Icons, class names and the help tooltip are left
  out, and so is the number of commits in the label of the history item. A menu item
  calls \<^verbatim>\<open>onClick\<close> with the event only, so \<^verbatim>\<open>_handlePush\<close> runs with \<^verbatim>\<open>force = false\<close>.
\<close>

datatype element =
    DropdownButton string
  | DropdownDivider string
  | DropdownItem string "callback option" bool

definition renderButton :: "('v, 'k) GitVCS \<Rightarrow> (State, 'v, 'k) component \<Rightarrow> element" where
  "renderButton G s =
     (if \<not> vcs_isInitialized G (vcs (world s)) then DropdownButton ''Setup Git Sync''
      else DropdownButton (branch (state s)))"

definition renderBranch :: "(State, 'v, 'k) component \<Rightarrow> string \<Rightarrow> element" where
  "renderBranch s b =
     (let isCurrentBranch = (b = branch (state s))
      in DropdownItem b (if isCurrentBranch then None else Some (HandleCheckoutBranch b)) False)"

definition render :: "('v, 'k) GitVCS \<Rightarrow> (State, 'v, 'k) component \<Rightarrow> element list" where
  "render G s =
     [renderButton G s,
      DropdownDivider ''Git Sync'',
      DropdownItem ''Repository Settings'' (Some HandleConfig) False]
     @ (if vcs_isInitialized G (vcs (world s))
        then [DropdownItem ''Branches'' (Some HandleManageBranches) False] else [])
     @ (if vcs_isInitialized G (vcs (world s))
        then [DropdownDivider ''Branches'']
             @ map (renderBranch s) (branches (state s))
             @ [DropdownDivider (branch (state s)),
                DropdownItem ''Commit'' (Some HandleCommit) False]
             @ (if length (log (state s)) > 0
                then [DropdownItem ''Push'' (Some (HandlePush False)) False] else [])
             @ [DropdownItem ''Pull'' (Some HandlePull) False,
                DropdownItem ''History'' (Some HandleLog) (length (log (state s)) = 0)]
        else [])"

subsection \<open>The branches modal\<close>

text \<open>
  The state of \<^verbatim>\<open>GitBranchesModalClass\<close>. Its \<^verbatim>\<open>branch\<close> and \<^verbatim>\<open>branches\<close> are \<open>branchM\<close>
  and \<open>branchesM\<close> here, since the dropdown has fields of the same names; \<open>onHide\<close> is the
  instance field \<^verbatim>\<open>_onHide\<close>.
\<close>

record ModalState =
  error :: string
  branchM :: string
  branchesM :: "string list"
  remoteBranches :: "string list"
  newBranchName :: string
  onHide :: "callback option"

record 'k ModalProps =
  gitRepositoryM :: "'k GitRepository"

text \<open>
  \<^verbatim>\<open>_refreshState(newState)\<close> of the modal. The callers pass nothing or
  \<^verbatim>\<open>{ newBranchName: '' }\<close>, so \<open>newState\<close> is the new branch name, if any; it is spread last.
\<close>

definition refreshStateM ::
  "('v, 'k) GitVCS \<Rightarrow> string option \<Rightarrow> ((ModalState, 'v, 'k) component, unit) async" where
  "refreshStateM G newState =
     await (engine GetBranch (vcs_getBranch G)) (\<lambda>b.
     await (engine ListBranches (vcs_listBranches G)) (\<lambda>bs.
     await (engine ListRemoteBranches (vcs_listRemoteBranches G)) (\<lambda>rs.
     setState (\<lambda>st.
       let st' = st\<lparr>branchM := b, branchesM := bs, remoteBranches := rs\<rparr>
       in (case newState of None \<Rightarrow> st' | Some n \<Rightarrow> st'\<lparr>newBranchName := n\<rparr>)))))"

text \<open>\<^verbatim>\<open>_errorHandler(cb)\<close>\<close>

definition errorHandler ::
  "((ModalState, 'v, 'k) component, unit) async \<Rightarrow> ((ModalState, 'v, 'k) component, unit) async" where
  "errorHandler cb =
     tryCatch cb (\<lambda>err. setState (\<lambda>st. st\<lparr>error := err_message err\<rparr>))"

text \<open>\<^verbatim>\<open>_handleCheckout(branch)\<close>\<close>

definition handleCheckout ::
  "('v, 'k) GitVCS \<Rightarrow> 'k ModalProps \<Rightarrow> string \<Rightarrow> ((ModalState, 'v, 'k) component, unit) async" where
  "handleCheckout G p b =
     errorHandler
       (await bufferChanges (\<lambda>bufferId.
        await (engine (Checkout b) (vcs_checkout G b)) (\<lambda>_.
        await (trackSegmentEvent ''checkout_branch'' None) (\<lambda>_.
        await (flushChanges bufferId True) (\<lambda>_.
        await handleInitializeEntities (\<lambda>_.
        refreshStateM G None))))))"

text \<open>\<^verbatim>\<open>_handleMerge(branch)\<close>\<close>

definition handleMerge ::
  "('v, 'k) GitVCS \<Rightarrow> 'k ModalProps \<Rightarrow> string \<Rightarrow> ((ModalState, 'v, 'k) component, unit) async" where
  "handleMerge G p b =
     errorHandler
       (await (engine (Merge b) (vcs_merge G b)) (\<lambda>_.
        await (handleCheckout G p b) (\<lambda>_.
        trackSegmentEvent ''merge_branch'' None)))"

text \<open>\<^verbatim>\<open>_handleDelete(branch)\<close>\<close>

definition handleDelete ::
  "('v, 'k) GitVCS \<Rightarrow> 'k ModalProps \<Rightarrow> string \<Rightarrow> ((ModalState, 'v, 'k) component, unit) async" where
  "handleDelete G p b =
     errorHandler
       (await (engine (DeleteBranch b) (vcs_deleteBranch G b)) (\<lambda>_.
        await (trackSegmentEvent ''delete_branch'' None) (\<lambda>_.
        refreshStateM G None)))"

text \<open>\<^verbatim>\<open>_handleRemoteCheckout(branch)\<close>\<close>

definition handleRemoteCheckout ::
  "('v, 'k) GitVCS \<Rightarrow> 'k ModalProps \<Rightarrow> string \<Rightarrow> ((ModalState, 'v, 'k) component, unit) async" where
  "handleRemoteCheckout G p b =
     errorHandler
       (await (engine (Fetch True 20 (credentials (gitRepositoryM p)))
                 (vcs_fetch G True 20 (credentials (gitRepositoryM p)))) (\<lambda>_.
        handleCheckout G p b))"

text \<open>
  \<^verbatim>\<open>show(options)\<close>, with \<open>options\<close> given by its \<^verbatim>\<open>onHide\<close>. The modal and the input
  exist when it is shown; the focus itself happens 100 ms later and only the timer is
  recorded.
\<close>

definition showM ::
  "('v, 'k) GitVCS \<Rightarrow> 'k ModalProps \<Rightarrow> callback option \<Rightarrow>
   ((ModalState, 'v, 'k) component, unit) async" where
  "showM G p options =
     await (refreshStateM G (Some [])) (\<lambda>_.
     await (setState (\<lambda>st. st\<lparr>onHide := options\<rparr>)) (\<lambda>_.
     await (emit ModalShow) (\<lambda>_.
     await (emit (SetTimeoutFocus 100)) (\<lambda>_.
     await (engine (Fetch False 1 (credentials (gitRepositoryM p)))
              (vcs_fetch G False 1 (credentials (gitRepositoryM p)))) (\<lambda>_.
     refreshStateM G None)))))"

text \<open>
  \<^verbatim>\<open>render()\<close> of the modal, reduced to its two tables: a row per local branch with its name,
  whether it is the current one and the buttons it has, and, when there is a remote-only
  branch, a row per such branch with its checkout button.
\<close>

datatype modal_callback =
    HandleMerge string
  | HandleDelete string
  | HandleCheckout string
  | HandleRemoteCheckout string

record ModalView =
  notice :: "string option"
  localRows :: "(string \<times> bool \<times> modal_callback list) list"
  remoteTable :: "(string \<times> modal_callback) list option"
  footer :: string

definition remoteOnlyBranches :: "ModalState \<Rightarrow> string list" where
  "remoteOnlyBranches st = filter (\<lambda>b. b \<notin> set (branchesM st)) (remoteBranches st)"

definition renderM :: "ModalState \<Rightarrow> ModalView" where
  "renderM st =
     \<lparr>notice = (if error st \<noteq> [] then Some (error st) else None),
      localRows =
        map (\<lambda>n. (n, n = branchM st,
                   if n \<noteq> branchM st then [HandleMerge n, HandleDelete n, HandleCheckout n] else []))
            (branchesM st),
      remoteTable =
        (if length (remoteOnlyBranches st) > 0
         then Some (map (\<lambda>n. (n, HandleRemoteCheckout n)) (remoteOnlyBranches st))
         else None),
      footer = branchM st\<rparr>"

text \<open>What clicking a button of a row runs.\<close>

definition invokeM ::
  "('v, 'k) GitVCS \<Rightarrow> 'k ModalProps \<Rightarrow> modal_callback \<Rightarrow>
   ((ModalState, 'v, 'k) component, unit) async" where
  "invokeM G p cb =
     (case cb of
        HandleMerge b \<Rightarrow> handleMerge G p b
      | HandleDelete b \<Rightarrow> handleDelete G p b
      | HandleCheckout b \<Rightarrow> handleCheckout G p b
      | HandleRemoteCheckout b \<Rightarrow> handleRemoteCheckout G p b)"

subsection \<open>A scripted engine\<close>

text \<open>
  One engine to run the handlers on: a repository with its current branch, its local and
  remote branches and its commits. Every asynchronous call rejects with \<open>repo_failure\<close>
  when that is set; otherwise \<^verbatim>\<open>checkout\<close> moves the current branch, \<^verbatim>\<open>deleteBranch\<close>
  removes the branch, and \<^verbatim>\<open>push\<close> is rejected when the remote has diverged and
  \<^verbatim>\<open>force\<close> is not set, and leaves nothing to push otherwise.
\<close>

record Repo =
  repo_initialized :: bool
  repo_branch :: string
  repo_branches :: "string list"
  repo_remoteBranches :: "string list"
  repo_log :: "GitLogEntry list"
  repo_canPush :: bool
  repo_diverged :: bool
  repo_failure :: "js_error option"

definition pushRejected :: js_error where
  "pushRejected = JsError (Some ''PushRejectedError'') ''Updates were rejected by remote''"

definition answer :: "(Repo \<Rightarrow> 'a) \<Rightarrow> (Repo \<Rightarrow> Repo) \<Rightarrow> Repo \<Rightarrow> (js_error + 'a) \<times> Repo" where
  "answer f g r = (case repo_failure r of Some e \<Rightarrow> (Inl e, r) | None \<Rightarrow> (Inr (f r), g r))"

definition scriptedVCS :: "(Repo, string) GitVCS" where
  "scriptedVCS =
     \<lparr>vcs_isInitialized = repo_initialized,
      vcs_getBranch = answer repo_branch (\<lambda>r. r),
      vcs_listBranches = answer repo_branches (\<lambda>r. r),
      vcs_listRemoteBranches = answer repo_remoteBranches (\<lambda>r. r),
      vcs_log = answer (\<lambda>r. Some (repo_log r)) (\<lambda>r. r),
      vcs_checkout = (\<lambda>b. answer (\<lambda>r. ()) (\<lambda>r. r\<lparr>repo_branch := b\<rparr>)),
      vcs_merge = (\<lambda>b. answer (\<lambda>r. ()) (\<lambda>r. r)),
      vcs_deleteBranch =
        (\<lambda>b. answer (\<lambda>r. ()) (\<lambda>r. r\<lparr>repo_branches := removeAll b (repo_branches r)\<rparr>)),
      vcs_canPush = (\<lambda>k. answer repo_canPush (\<lambda>r. r)),
      vcs_push =
        (\<lambda>k force r.
           if repo_failure r = None \<and> repo_diverged r \<and> \<not> force then (Inl pushRejected, r)
           else answer (\<lambda>r. ()) (\<lambda>r. r\<lparr>repo_canPush := False, repo_diverged := False\<rparr>) r),
      vcs_pull = (\<lambda>k. answer (\<lambda>r. ()) (\<lambda>r. r)),
      vcs_fetch = (\<lambda>allBranches depth k. answer (\<lambda>r. ()) (\<lambda>r. r))\<rparr>"

definition firstCommit :: GitLogEntry where
  "firstCommit = \<lparr>commit = \<lparr>author = \<lparr>name = ''Ada'', timestamp = 1650000000\<rparr>\<rparr>\<rparr>"

text \<open>A commit dated so far ahead that its time in milliseconds is beyond \<open>2 ^ 53\<close>.\<close>

definition farCommit :: GitLogEntry where
  "farCommit = \<lparr>commit = \<lparr>author = \<lparr>name = ''Ada'', timestamp = 72057594037929\<rparr>\<rparr>\<rparr>"

text \<open>The scripted engine, except that its \<^verbatim>\<open>checkout\<close> always rejects.\<close>

definition checkoutRejectingVCS :: "(Repo, string) GitVCS" where
  "checkoutRejectingVCS =
     scriptedVCS\<lparr>vcs_checkout := (\<lambda>b r. (Inl (JsError None ''local changes would be lost''), r))\<rparr>"

definition exampleRepo :: Repo where
  "exampleRepo =
     \<lparr>repo_initialized = True, repo_branch = ''main'',
      repo_branches = [''main'', ''feature''],
      repo_remoteBranches = [''main'', ''hotfix'', ''feature'', ''release''],
      repo_log = [firstCommit], repo_canPush = True, repo_diverged = False,
      repo_failure = None\<rparr>"

definition exampleMeta :: WorkspaceMeta where
  "exampleMeta =
     \<lparr>cachedGitRepositoryBranch = Some ''old'', cachedGitLastAuthor = None,
      cachedGitLastCommitTime = None, gitRepositoryId = Some ''git_1''\<rparr>"

definition exampleWorld :: "Repo \<Rightarrow> (Repo, string) world" where
  "exampleWorld r =
     \<lparr>vcs = r, workspaceMetas = (\<lambda>i. exampleMeta), bufferChangesId = 0, trace = []\<rparr>"

text \<open>The dropdown as it is constructed, and the modal as it is constructed.\<close>

definition initialState :: State where
  "initialState =
     \<lparr>initializing = False, loadingPush = False, loadingPull = False,
      log = [], branch = [], branches = []\<rparr>"

definition initialModalState :: ModalState where
  "initialModalState =
     \<lparr>error = [], branchM = ''??'', branchesM = [], remoteBranches = [],
      newBranchName = [], onHide = None\<rparr>"

definition exampleDropdown :: "Repo \<Rightarrow> (State, Repo, string) component" where
  "exampleDropdown r = \<lparr>state = initialState, world = exampleWorld r\<rparr>"

definition exampleModal :: "Repo \<Rightarrow> (ModalState, Repo, string) component" where
  "exampleModal r = \<lparr>state = initialModalState, world = exampleWorld r\<rparr>"

definition exampleProps :: "string Props" where
  "exampleProps =
     \<lparr>workspace = \<lparr>workspace_id = ''wrk_1''\<rparr>,
      gitRepository = Some \<lparr>credentials = ''token''\<rparr>\<rparr>"

definition unconfiguredProps :: "string Props" where
  "unconfiguredProps = \<lparr>workspace = \<lparr>workspace_id = ''wrk_1''\<rparr>, gitRepository = None\<rparr>"

definition exampleModalProps :: "string ModalProps" where
  "exampleModalProps = \<lparr>gitRepositoryM = \<lparr>credentials = ''token''\<rparr>\<rparr>"

definition networkError :: js_error where
  "networkError = JsError (Some ''NetworkError'') ''connection refused''"

subsection \<open>Reading a trace and a menu\<close>

text \<open>The arguments of the \<^verbatim>\<open>vcs.fetch\<close> calls of a trace, in order.\<close>

definition fetchOf :: "'k event \<Rightarrow> (bool \<times> nat \<times> 'k) option" where
  "fetchOf e =
     (case e of
        Vcs c \<Rightarrow> (case c of Fetch allBranches depth k \<Rightarrow> Some (allBranches, depth, k) | _ \<Rightarrow> None)
      | _ \<Rightarrow> None)"

definition fetches :: "'k event list \<Rightarrow> (bool \<times> nat \<times> 'k) list" where
  "fetches es = List.map_filter fetchOf es"

text \<open>A menu entry is a push control when clicking it runs \<^verbatim>\<open>_handlePush\<close> and it is enabled.\<close>

definition isPushControl :: "element \<Rightarrow> bool" where
  "isPushControl e =
     (case e of
        DropdownItem l (Some (HandlePush force)) d \<Rightarrow> \<not> d
      | _ \<Rightarrow> False)"

definition offersPush :: "element list \<Rightarrow> bool" where
  "offersPush es = list_ex isPushControl es"

text \<open>The branches the modal offers for a remote checkout, in the order of their rows.\<close>

definition remoteCheckoutOffers :: "ModalView \<Rightarrow> string list" where
  "remoteCheckoutOffers v =
     (case remoteTable v of
        None \<Rightarrow> []
      | Some rows \<Rightarrow>
          concat (map (\<lambda>(n, cb). case cb of HandleRemoteCheckout b \<Rightarrow> [b] | _ \<Rightarrow> []) rows))"

text \<open>
  A dropdown whose state still holds the log of its last refresh while the engine it is
  given is not initialized.
\<close>

definition staleDropdown :: "(State, Repo, string) component" where
  "staleDropdown =
     (let s = snd (refreshState scriptedVCS exampleProps (exampleDropdown exampleRepo))
      in s\<lparr>world := (world s)\<lparr>vcs := exampleRepo\<lparr>repo_initialized := False\<rparr>\<rparr>\<rparr>)"

section \<open>Properties\<close>

lemmas async_defs =
  resolve_def throw_def await_def tryCatch_def emit_def setState_def engine_def
  isInitialized_def bufferChanges_def flushChanges_def getOrCreateByParentId_def
  updateByParentId_def showError_def showAlert_def trackSegmentEvent_def
  handleInitializeEntities_def

lemmas example_defs =
  scriptedVCS_def answer_def exampleRepo_def exampleMeta_def exampleWorld_def
  initialState_def initialModalState_def exampleDropdown_def exampleModal_def
  exampleProps_def unconfiguredProps_def exampleModalProps_def networkError_def
  firstCommit_def pushRejected_def

subsection \<open>Products of whole numbers\<close>

declare bitLength.simps [simp del]

lemma bitLength_le: "n < 2 ^ k \<Longrightarrow> bitLength n \<le> k"
proof (induction k arbitrary: n)
  case 0
  then show ?case by (simp add: bitLength.simps)
next
  case (Suc k)
  show ?case
  proof (cases "n = 0")
    case True
    then show ?thesis by (simp add: bitLength.simps)
  next
    case False
    from Suc.prems have "n div 2 < 2 ^ k" by simp
    then have "bitLength (n div 2) \<le> k" by (rule Suc.IH)
    with False show ?thesis by (subst bitLength.simps) simp
  qed
qed

lemma maxDouble_ge: "2 ^ 53 - 1 \<le> maxDouble"
proof -
  have "(2 ^ 53 - 1) * (1::int) \<le> (2 ^ 53 - 1) * 2 ^ 971"
    by (rule mult_left_mono) simp_all
  then show ?thesis by (simp add: maxDouble_def)
qed

text \<open>Below \<open>2 ^ 53\<close> in magnitude every whole number is a double, and a product is exact.\<close>

lemma roundToDouble_exact:
  assumes "\<bar>n\<bar> < 2 ^ 53"
  shows "roundToDouble n = Number n"
proof -
  define a where "a = nat \<bar>n\<bar>"
  have "a < 2 ^ 53"
    using assms by (simp add: a_def nat_less_iff)
  then have e: "bitLength a - 53 = 0"
    using bitLength_le [of a 53] by simp
  have a: "int a = \<bar>n\<bar>"
    by (simp add: a_def)
  have le: "\<not> maxDouble < \<bar>n\<bar>"
    using assms maxDouble_ge by linarith
  have "roundToDouble n =
      (if maxDouble < int a then (if n < 0 then MinusInfinity else Infinity)
       else Number (if n < 0 then - int a else int a))"
    unfolding roundToDouble_def Let_def a_def [symmetric] e by simp
  also have "\<dots> = Number (if n < 0 then - \<bar>n\<bar> else \<bar>n\<bar>)"
    unfolding a using le by simp
  also have "\<dots> = Number n"
    by simp
  finally show ?thesis .
qed

subsection \<open>Pull and push\<close>

text \<open>
  The claim C3 as it is written, for every invocation, fails where the dropdown has no
  repository: \<^verbatim>\<open>_handlePull\<close> sets \<^verbatim>\<open>loadingPull\<close> and throws. No buffer is opened, the
  engine is not called and nothing is flushed: the world is as it was.
\<close>

theorem handlePull_unconfigured_opens_no_buffer:
  "snd (handlePull scriptedVCS unconfiguredProps (exampleDropdown exampleRepo)) =
     \<lparr>state = initialState\<lparr>loadingPull := True\<rparr>, world = exampleWorld exampleRepo\<rparr> \<and>
   trace (exampleWorld exampleRepo) = [] \<and>
   bufferChangesId (exampleWorld exampleRepo) = 0"
  by (simp add: handlePull_def await_def setState_def throw_def unconfiguredProps_def
      exampleDropdown_def exampleWorld_def)

text \<open>
  C3, as the code has it. Pull with a repository configured, \<open>k\<close> its credentials: the
  handler opens a buffer, calls \<^verbatim>\<open>vcs.pull(k)\<close>, and when that rejects it shows the error
  and goes on (the handler itself resolves). On both paths the buffer with the id that was
  opened is then flushed, without the notify flag, and nothing else is called.
\<close>

theorem handlePull_sequence:
  assumes "gitRepository p = Some repo"
  shows "let k = credentials repo;
             i = Suc (bufferChangesId (world s));
             pulled = fst (vcs_pull G k (vcs (world s)));
             s' = snd (handlePull G p s)
         in fst (handlePull G p s) = Inr () \<and>
            trace (world s') = trace (world s) @ [BufferChanges i, Vcs (Pull k)] @
              (case pulled of
                 Inr u \<Rightarrow> [TrackSegmentEvent ''pull'' None]
               | Inl err \<Rightarrow> [ShowError ''Error Pulling Repository'' err,
                             TrackSegmentEvent ''pull'' (Some (err_message err))]) @
              [FlushChanges i False]"
  using assms
  by (simp add: handlePull_def async_defs Let_def split: prod.splits sum.splits)

theorem handlePull_sequence_witness:
  "gitRepository exampleProps = Some \<lparr>credentials = ''token''\<rparr> \<and>
   fst (handlePull scriptedVCS exampleProps
          (exampleDropdown (exampleRepo\<lparr>repo_failure := Some networkError\<rparr>))) = Inr () \<and>
   trace (world (snd (handlePull scriptedVCS exampleProps
          (exampleDropdown (exampleRepo\<lparr>repo_failure := Some networkError\<rparr>))))) =
     [BufferChanges 1, Vcs (Pull ''token''),
      ShowError ''Error Pulling Repository'' networkError,
      TrackSegmentEvent ''pull'' (Some ''connection refused''),
      FlushChanges 1 False]"
proof -
  have h: "gitRepository exampleProps = Some \<lparr>credentials = ''token''\<rparr>"
    by (simp add: exampleProps_def)
  show ?thesis
    using h handlePull_sequence [OF h, where G = scriptedVCS
        and s = "exampleDropdown (exampleRepo\<lparr>repo_failure := Some networkError\<rparr>)"]
    by (simp add: Let_def example_defs)
qed

text \<open>
  The claim C2 as it is written, for every invocation, fails where the dropdown has no
  repository: \<^verbatim>\<open>_handlePush\<close> sets \<^verbatim>\<open>loadingPush\<close> and throws before it asks the engine
  whether it can push. The world is as it was.
\<close>

theorem handlePush_unconfigured_calls_nothing:
  "snd (handlePush scriptedVCS unconfiguredProps False (exampleDropdown exampleRepo)) =
     \<lparr>state = initialState\<lparr>loadingPush := True\<rparr>, world = exampleWorld exampleRepo\<rparr> \<and>
   trace (exampleWorld exampleRepo) = []"
  by (simp add: handlePush_def await_def setState_def throw_def unconfiguredProps_def
      exampleDropdown_def exampleWorld_def)

text \<open>
  C2, as the code has it. Push with a repository configured, \<open>k\<close> its credentials: the
  first call is
  \<^verbatim>\<open>vcs.canPush(k)\<close>. When it resolves with false, the handler shows the alert that nothing
  was pushed and stops: no buffer, no push. When it resolves with true, the handler opens
  a buffer and calls \<^verbatim>\<open>vcs.push(k, force)\<close>; a rejection with the code
  \<^verbatim>\<open>PushRejectedError\<close> gives the alert whose confirmation is \<open>HandlePush True\<close>, which
  runs this same handler with \<^verbatim>\<open>force = true\<close>; any other rejection is shown as an
  error; and after the push, resolved or rejected, the buffer is flushed without the
  notify flag. (When \<^verbatim>\<open>canPush\<close> itself rejects, the error is shown and the handler stops.)
\<close>

theorem handlePush_sequence:
  assumes "gitRepository p = Some repo"
  shows "let k = credentials repo;
             i = Suc (bufferChangesId (world s));
             checked = vcs_canPush G k (vcs (world s));
             pushed = fst (vcs_push G k force (snd checked));
             action = (if force then ''force_push'' else ''push'');
             s' = snd (handlePush G p force s)
         in fst (handlePush G p force s) = Inr () \<and>
            trace (world s') = trace (world s) @ Vcs (CanPush k) #
              (case fst checked of
                 Inl err \<Rightarrow> [ShowError ''Error Pushing Repository'' err]
               | Inr canPush \<Rightarrow>
                   if \<not> canPush then
                     [ShowAlert ''Push Skipped''
                        ''Everything up-to-date. Nothing was pushed to the remote''
                        None False None]
                   else
                     [BufferChanges i, Vcs (Push k force)] @
                     (case pushed of
                        Inr u \<Rightarrow> [TrackSegmentEvent action None]
                      | Inl err \<Rightarrow>
                          if err_code err = Some ''PushRejectedError'' then
                            [DropdownHide,
                             ShowAlert ''Push Rejected'' ''Do you want to force push?''
                               (Some ''Force Push'') True (Some (HandlePush True))]
                          else
                            [ShowError ''Error Pushing Repository'' err,
                             TrackSegmentEvent action (Some (err_message err))]) @
                     [FlushChanges i False]) \<and>
            invoke G p (HandlePush True) = handlePush G p True"
proof -
  obtain c v1 where c: "vcs_canPush G (credentials repo) (vcs (world s)) = (c, v1)"
    by fastforce
  obtain r v2 where r: "vcs_push G (credentials repo) force v1 = (r, v2)"
    by fastforce
  have inv: "invoke G p (HandlePush True) = handlePush G p True"
    by (simp add: invoke_def)
  show ?thesis
  proof (cases c)
    case (Inl e)
    with assms c inv show ?thesis
      by (simp add: handlePush_def async_defs Let_def)
  next
    case (Inr canPush)
    show ?thesis
    proof (cases canPush)
      case False
      with assms c Inr inv show ?thesis
        by (simp add: handlePush_def async_defs Let_def)
    next
      case True
      show ?thesis
      proof (cases r)
        case (Inl e)
        with assms c r Inr True inv show ?thesis
          by (simp add: handlePush_def async_defs Let_def)
      next
        case (Inr u)
        with assms c r \<open>c = Inr canPush\<close> True inv show ?thesis
          by (simp add: handlePush_def async_defs Let_def)
      qed
    qed
  qed
qed

theorem handlePush_sequence_witness:
  "gitRepository exampleProps = Some \<lparr>credentials = ''token''\<rparr> \<and>
   trace (world (snd (handlePush scriptedVCS exampleProps False
          (exampleDropdown (exampleRepo\<lparr>repo_canPush := False\<rparr>))))) =
     [Vcs (CanPush ''token''),
      ShowAlert ''Push Skipped'' ''Everything up-to-date. Nothing was pushed to the remote''
        None False None] \<and>
   trace (world (snd (handlePush scriptedVCS exampleProps False (exampleDropdown exampleRepo)))) =
     [Vcs (CanPush ''token''), BufferChanges 1, Vcs (Push ''token'' False),
      TrackSegmentEvent ''push'' None, FlushChanges 1 False]"
proof -
  have h: "gitRepository exampleProps = Some \<lparr>credentials = ''token''\<rparr>"
    by (simp add: exampleProps_def)
  show ?thesis
    using h
      handlePush_sequence [OF h, where G = scriptedVCS and force = False
        and s = "exampleDropdown (exampleRepo\<lparr>repo_canPush := False\<rparr>)"]
      handlePush_sequence [OF h, where G = scriptedVCS and force = False
        and s = "exampleDropdown exampleRepo"]
    by (simp add: Let_def example_defs)
qed

subsection \<open>The metadata cache\<close>

text \<open>
  C4. When \<^verbatim>\<open>_refreshState\<close> runs while the engine is not initialized or the workspace has
  no repository id, the three cached fields of the stored metadata are \<^verbatim>\<open>null\<close> afterwards.
  \<^verbatim>\<open>updateByParentId\<close> is called, once and with the three fields \<^verbatim>\<open>null\<close>, only if one of
  the stored fields was not \<^verbatim>\<open>null\<close>; otherwise nothing is written and the stored records
  are the same as before. The engine is not called and the component state stays.
\<close>

theorem refreshState_unconfigured:
  assumes "\<not> vcs_isInitialized G (vcs (world s)) \<or>
           \<not> truthy (gitRepositoryId (workspaceMetas (world s) (workspace_id (workspace p))))"
  shows "let i = workspace_id (workspace p);
             m = workspaceMetas (world s) i;
             s' = snd (refreshState G p s);
             m' = workspaceMetas (world s') i;
             stale = (cachedGitRepositoryBranch m \<noteq> None \<or> cachedGitLastAuthor m \<noteq> None \<or>
                      cachedGitLastCommitTime m \<noteq> None)
         in fst (refreshState G p s) = Inr () \<and>
            cachedGitRepositoryBranch m' = None \<and>
            cachedGitLastAuthor m' = None \<and>
            cachedGitLastCommitTime m' = None \<and>
            trace (world s') = trace (world s) @ GetOrCreateByParentId i #
              (if stale
               then [UpdateByParentId i \<lparr>cachedGitRepositoryBranch = None,
                       cachedGitLastAuthor = None, cachedGitLastCommitTime = None\<rparr>]
               else []) \<and>
            workspaceMetas (world s') =
              (if stale
               then (workspaceMetas (world s))
                      (i := m\<lparr>cachedGitRepositoryBranch := None, cachedGitLastAuthor := None,
                               cachedGitLastCommitTime := None\<rparr>)
               else workspaceMetas (world s)) \<and>
            state s' = state s \<and> vcs (world s') = vcs (world s)"
  using assms
  by (auto simp: refreshState_def async_defs Let_def isNotNullOrUndefined_def applyPatch_def)

theorem refreshState_unconfigured_witness:
  "\<not> vcs_isInitialized scriptedVCS
       (vcs (world (exampleDropdown (exampleRepo\<lparr>repo_initialized := False\<rparr>)))) \<and>
   cachedGitRepositoryBranch exampleMeta = Some ''old'' \<and>
   workspaceMetas (world (snd (refreshState scriptedVCS exampleProps
       (exampleDropdown (exampleRepo\<lparr>repo_initialized := False\<rparr>))))) ''wrk_1'' =
     \<lparr>cachedGitRepositoryBranch = None, cachedGitLastAuthor = None,
      cachedGitLastCommitTime = None, gitRepositoryId = Some ''git_1''\<rparr> \<and>
   trace (world (snd (refreshState scriptedVCS exampleProps
       (exampleDropdown (exampleRepo\<lparr>repo_initialized := False\<rparr>))))) =
     [GetOrCreateByParentId ''wrk_1'',
      UpdateByParentId ''wrk_1'' \<lparr>cachedGitRepositoryBranch = None,
        cachedGitLastAuthor = None, cachedGitLastCommitTime = None\<rparr>]"
proof -
  have h: "\<not> vcs_isInitialized scriptedVCS
             (vcs (world (exampleDropdown (exampleRepo\<lparr>repo_initialized := False\<rparr>))))"
    by (simp add: example_defs)
  then have h': "\<not> vcs_isInitialized scriptedVCS
             (vcs (world (exampleDropdown (exampleRepo\<lparr>repo_initialized := False\<rparr>)))) \<or>
           \<not> truthy (gitRepositoryId (workspaceMetas
               (world (exampleDropdown (exampleRepo\<lparr>repo_initialized := False\<rparr>)))
               (workspace_id (workspace exampleProps))))"
    by simp
  show ?thesis
    using h refreshState_unconfigured [OF h']
    by (simp add: Let_def example_defs refreshState_def async_defs applyPatch_def
        isNotNullOrUndefined_def)
qed

text \<open>
  The claim C6 as it is written, the timestamp times exactly 1000, fails for a timestamp
  whose product is beyond \<open>2 ^ 53\<close>: \<^verbatim>\<open>author.timestamp * 1000\<close> is a product of doubles.
  For 72057594037929 seconds the exact product is 72057594037929000, and the time written
  is 72057594037928992.
\<close>

theorem refreshState_rounds_large_time:
  "cachedGitLastCommitTime (workspaceMetas (world (snd (refreshState scriptedVCS exampleProps
       (exampleDropdown (exampleRepo\<lparr>repo_log := [farCommit]\<rparr>))))) ''wrk_1'') =
     Some (Number 72057594037928992) \<and>
   timestamp (author (commit farCommit)) * 1000 = 72057594037929000"
proof -
  have "bitLength 72057594037929000 = 57"
    by (simp add: bitLength.simps)
  then have "roundToDouble 72057594037929000 = Number 72057594037928992"
    by (simp add: roundToDouble_def Let_def maxDouble_def)
  then show ?thesis
    by (simp add: refreshState_def async_defs Let_def applyPatch_def truthy_def jsTimes_def
        example_defs farCommit_def)
qed

text \<open>
  C6, as the code has it. When \<^verbatim>\<open>_refreshState\<close> runs with the engine initialized and a
  repository id, and the engine answers with the branch \<open>b\<close> and a log whose first entry
  is \<open>e\<close>, the metadata written has the author name of \<open>e\<close> as the last author, \<open>b\<close> as
  the branch, and as the last commit time the double product of the author timestamp of
  \<open>e\<close>, which is in seconds, and 1000. That is the timestamp times exactly 1000, in whole
  milliseconds, whenever this product is below \<open>2 ^ 53\<close> in magnitude.
\<close>

theorem refreshState_configured:
  assumes "vcs_isInitialized G (vcs (world s))"
    and "truthy (gitRepositoryId (workspaceMetas (world s) (workspace_id (workspace p))))"
    and "vcs_getBranch G (vcs (world s)) = (Inr b, v1)"
    and "vcs_listBranches G v1 = (Inr bs, v2)"
    and "vcs_log G v2 = (Inr (Some (e # es)), v3)"
  shows "let i = workspace_id (workspace p);
             s' = snd (refreshState G p s);
             m' = workspaceMetas (world s') i
         in fst (refreshState G p s) = Inr () \<and>
            cachedGitLastCommitTime m' = Some (jsTimes (timestamp (author (commit e))) 1000) \<and>
            (\<bar>timestamp (author (commit e)) * 1000\<bar> < 2 ^ 53 \<longrightarrow>
               cachedGitLastCommitTime m' = Some (Number (timestamp (author (commit e)) * 1000))) \<and>
            cachedGitLastAuthor m' = Some (name (author (commit e))) \<and>
            cachedGitRepositoryBranch m' = Some b \<and>
            trace (world s') = trace (world s) @
              [GetOrCreateByParentId i, Vcs GetBranch, Vcs ListBranches, Vcs Log,
               UpdateByParentId i
                 \<lparr>cachedGitRepositoryBranch = Some b,
                  cachedGitLastAuthor = Some (name (author (commit e))),
                  cachedGitLastCommitTime =
                    Some (jsTimes (timestamp (author (commit e))) 1000)\<rparr>]"
  using assms
  by (simp add: refreshState_def async_defs Let_def applyPatch_def jsTimes_def
      roundToDouble_exact)

theorem refreshState_configured_witness:
  "vcs_isInitialized scriptedVCS (vcs (world (exampleDropdown exampleRepo))) \<and>
   truthy (gitRepositoryId (workspaceMetas (world (exampleDropdown exampleRepo))
             (workspace_id (workspace exampleProps)))) \<and>
   vcs_getBranch scriptedVCS (vcs (world (exampleDropdown exampleRepo))) =
     (Inr ''main'', exampleRepo) \<and>
   vcs_listBranches scriptedVCS exampleRepo = (Inr [''main'', ''feature''], exampleRepo) \<and>
   vcs_log scriptedVCS exampleRepo = (Inr (Some [firstCommit]), exampleRepo) \<and>
   \<bar>timestamp (author (commit firstCommit)) * 1000\<bar> < 2 ^ 53 \<and>
   workspaceMetas (world (snd (refreshState scriptedVCS exampleProps
       (exampleDropdown exampleRepo)))) ''wrk_1'' =
     \<lparr>cachedGitRepositoryBranch = Some ''main'', cachedGitLastAuthor = Some ''Ada'',
      cachedGitLastCommitTime = Some (Number 1650000000000),
      gitRepositoryId = Some ''git_1''\<rparr>"
proof -
  have h1: "vcs_isInitialized scriptedVCS (vcs (world (exampleDropdown exampleRepo)))"
    by (simp add: example_defs)
  have h2: "truthy (gitRepositoryId (workspaceMetas (world (exampleDropdown exampleRepo))
              (workspace_id (workspace exampleProps))))"
    by (simp add: example_defs truthy_def)
  have h3: "vcs_getBranch scriptedVCS (vcs (world (exampleDropdown exampleRepo))) =
              (Inr ''main'', exampleRepo)"
    by (simp add: example_defs)
  have h4: "vcs_listBranches scriptedVCS exampleRepo = (Inr [''main'', ''feature''], exampleRepo)"
    by (simp add: example_defs)
  have h5: "vcs_log scriptedVCS exampleRepo = (Inr (Some ([firstCommit] @ [])), exampleRepo)"
    by (simp add: scriptedVCS_def answer_def exampleRepo_def)
  have h5': "vcs_log scriptedVCS exampleRepo = (Inr (Some (firstCommit # [])), exampleRepo)"
    using h5 by simp
  have h6: "\<bar>timestamp (author (commit firstCommit)) * 1000\<bar> < 2 ^ 53"
    by (simp add: firstCommit_def)
  from refreshState_configured [OF h1 h2 h3 h4 h5', unfolded Let_def] h6
  have time: "cachedGitLastCommitTime (workspaceMetas (world (snd (refreshState scriptedVCS
      exampleProps (exampleDropdown exampleRepo)))) (workspace_id (workspace exampleProps))) =
      Some (Number (timestamp (author (commit firstCommit)) * 1000))"
    by blast
  have rest: "workspaceMetas (world (snd (refreshState scriptedVCS exampleProps
       (exampleDropdown exampleRepo)))) ''wrk_1'' =
     \<lparr>cachedGitRepositoryBranch = Some ''main'', cachedGitLastAuthor = Some ''Ada'',
      cachedGitLastCommitTime = Some (jsTimes 1650000000 1000),
      gitRepositoryId = Some ''git_1''\<rparr>"
    by (simp add: Let_def example_defs refreshState_def async_defs applyPatch_def truthy_def)
  have "jsTimes 1650000000 1000 = Number 1650000000000"
    using time rest by (simp add: example_defs)
  with h1 h2 h3 h4 h5' h6 rest show ?thesis
    by simp
qed

subsection \<open>Checkout, merge and remote checkout\<close>

text \<open>
  The checkout of the dropdown, \<^verbatim>\<open>_handleCheckoutBranch\<close>: buffer, \<^verbatim>\<open>vcs.checkout\<close>, the
  error shown if it rejects, then on either path the flush with the flag, the entities
  and the refresh.
\<close>

lemma handleCheckoutBranch_always_flushes:
  "handleCheckoutBranch G p b s =
     (let i = Suc (bufferChangesId (world s));
          r = vcs_checkout G b (vcs (world s))
      in refreshState G p
           (s\<lparr>world := (world s)
                \<lparr>bufferChangesId := i, vcs := snd r,
                 trace := trace (world s) @ [BufferChanges i, Vcs (Checkout b)] @
                   (case fst r of Inl err \<Rightarrow> [ShowError ''Checkout Error'' err] | Inr u \<Rightarrow> []) @
                   [FlushChanges i True, InitializeEntities]\<rparr>\<rparr>))"
proof -
  obtain r v1 where r: "vcs_checkout G b (vcs (world s)) = (r, v1)"
    by fastforce
  show ?thesis
    using r by (cases r) (simp_all add: handleCheckoutBranch_def async_defs Let_def)
qed

text \<open>
  The checkout of the modal, \<^verbatim>\<open>_handleCheckout\<close>, when \<^verbatim>\<open>vcs.checkout\<close> rejects: the
  message becomes the error notice, and the handler ends there. The buffer it opened is
  not flushed.
\<close>

lemma handleCheckout_rejected:
  assumes "vcs_checkout G b (vcs (world s)) = (Inl err, v1)"
  shows "handleCheckout G p b s =
     (Inr (),
      \<lparr>state = (state s)\<lparr>error := err_message err\<rparr>,
       world = (world s)
         \<lparr>bufferChangesId := Suc (bufferChangesId (world s)), vcs := v1,
          trace := trace (world s) @
            [BufferChanges (Suc (bufferChangesId (world s))), Vcs (Checkout b)]\<rparr>\<rparr>)"
  using assms
  by (simp add: handleCheckout_def errorHandler_def async_defs Let_def)

text \<open>
  The checkout of the modal when \<^verbatim>\<open>vcs.checkout\<close> resolves: buffer, checkout, flush with
  the flag, entities, and then the refresh under the error handler.
\<close>

lemma handleCheckout_resolved:
  assumes "vcs_checkout G b (vcs (world s)) = (Inr (), v1)"
  shows "handleCheckout G p b s =
     errorHandler (refreshStateM G None)
       (s\<lparr>world := (world s)
            \<lparr>bufferChangesId := Suc (bufferChangesId (world s)), vcs := v1,
             trace := trace (world s) @
               [BufferChanges (Suc (bufferChangesId (world s))), Vcs (Checkout b),
                TrackSegmentEvent ''checkout_branch'' None,
                FlushChanges (Suc (bufferChangesId (world s))) True,
                InitializeEntities]\<rparr>\<rparr>)"
  using assms
  by (simp add: handleCheckout_def errorHandler_def async_defs Let_def)

text \<open>
  C1. The claim asks for the flush on every exit path of the checkout action. The
  dropdown does that (\<open>handleCheckoutBranch_always_flushes\<close>); the modal does not: on the
  scripted engine with every call rejecting, \<^verbatim>\<open>_handleCheckout('feature')\<close> opens buffer 1,
  calls \<^verbatim>\<open>vcs.checkout\<close>, puts the message into the error notice and resolves. Neither
  \<^verbatim>\<open>flushChanges\<close> nor the entities nor the refresh follow.
\<close>

theorem handleCheckout_rejected_leaves_buffer:
  "fst (handleCheckout scriptedVCS exampleModalProps ''feature''
          (exampleModal (exampleRepo\<lparr>repo_failure := Some networkError\<rparr>))) = Inr () \<and>
   trace (world (snd (handleCheckout scriptedVCS exampleModalProps ''feature''
          (exampleModal (exampleRepo\<lparr>repo_failure := Some networkError\<rparr>))))) =
     [BufferChanges 1, Vcs (Checkout ''feature'')] \<and>
   error (state (snd (handleCheckout scriptedVCS exampleModalProps ''feature''
          (exampleModal (exampleRepo\<lparr>repo_failure := Some networkError\<rparr>))))) =
     ''connection refused''"
proof -
  have "vcs_checkout scriptedVCS ''feature''
          (vcs (world (exampleModal (exampleRepo\<lparr>repo_failure := Some networkError\<rparr>)))) =
        (Inl networkError, exampleRepo\<lparr>repo_failure := Some networkError\<rparr>)"
    by (simp add: scriptedVCS_def answer_def exampleModal_def exampleWorld_def)
  from handleCheckout_rejected [OF this] show ?thesis
    by (simp add: exampleModal_def exampleWorld_def networkError_def)
qed

text \<open>
  When \<^verbatim>\<open>vcs.merge(b)\<close> resolves, \<^verbatim>\<open>_handleMerge(b)\<close> goes on with exactly what
  \<^verbatim>\<open>_handleCheckout(b)\<close> does from the state after the merge, for the same branch, and
  only then records the merge. When the engine checks \<open>b\<close> out, that is: the buffer
  opened, \<^verbatim>\<open>vcs.checkout(b)\<close>, the flush of that buffer with the flag, the entities
  initialised again, and the refresh of the state.
\<close>

lemma handleMerge_then_checkout:
  assumes "vcs_merge G b (vcs (world s)) = (Inr (), v1)"
  shows "let s1 = s\<lparr>world := (world s)\<lparr>vcs := v1, trace := trace (world s) @ [Vcs (Merge b)]\<rparr>\<rparr>;
             s2 = snd (handleCheckout G p b s1);
             i = Suc (bufferChangesId (world s))
         in handleMerge G p b s =
              (Inr (), s2\<lparr>world := (world s2)
                 \<lparr>trace := trace (world s2) @ [TrackSegmentEvent ''merge_branch'' None]\<rparr>\<rparr>) \<and>
            (\<forall>v2. vcs_checkout G b v1 = (Inr (), v2) \<longrightarrow>
               handleCheckout G p b s1 =
                 errorHandler (refreshStateM G None)
                   (s\<lparr>world := (world s)
                        \<lparr>bufferChangesId := i, vcs := v2,
                         trace := trace (world s) @
                           [Vcs (Merge b), BufferChanges i, Vcs (Checkout b),
                            TrackSegmentEvent ''checkout_branch'' None,
                            FlushChanges i True, InitializeEntities]\<rparr>\<rparr>))"
proof -
  define s1 where "s1 = s\<lparr>world := (world s)\<lparr>vcs := v1, trace := trace (world s) @ [Vcs (Merge b)]\<rparr>\<rparr>"
  have resolves: "fst (handleCheckout G p b s1) = Inr ()"
    by (simp add: handleCheckout_def errorHandler_def tryCatch_def setState_def
        split: prod.splits sum.splits)
  have first: "handleMerge G p b s =
      (Inr (), (snd (handleCheckout G p b s1))\<lparr>world := (world (snd (handleCheckout G p b s1)))
         \<lparr>trace := trace (world (snd (handleCheckout G p b s1))) @
            [TrackSegmentEvent ''merge_branch'' None]\<rparr>\<rparr>)"
  proof -
    obtain s2 where s2: "handleCheckout G p b s1 = (Inr (), s2)"
      using resolves by (cases "handleCheckout G p b s1") auto
    have "handleMerge G p b s =
            tryCatch (await (handleCheckout G p b) (\<lambda>_. trackSegmentEvent ''merge_branch'' None))
              (\<lambda>err. setState (\<lambda>st. st\<lparr>error := err_message err\<rparr>)) s1"
      using assms
      by (simp add: handleMerge_def errorHandler_def tryCatch_def await_def engine_def s1_def)
    also have "\<dots> = (Inr (), s2\<lparr>world := (world s2)
         \<lparr>trace := trace (world s2) @ [TrackSegmentEvent ''merge_branch'' None]\<rparr>\<rparr>)"
      using s2 by (simp add: tryCatch_def await_def trackSegmentEvent_def emit_def)
    finally show ?thesis using s2 by simp
  qed
  have second: "\<forall>v2. vcs_checkout G b v1 = (Inr (), v2) \<longrightarrow>
      handleCheckout G p b s1 =
        errorHandler (refreshStateM G None)
          (s\<lparr>world := (world s)
               \<lparr>bufferChangesId := Suc (bufferChangesId (world s)), vcs := v2,
                trace := trace (world s) @
                  [Vcs (Merge b), BufferChanges (Suc (bufferChangesId (world s))),
                   Vcs (Checkout b), TrackSegmentEvent ''checkout_branch'' None,
                   FlushChanges (Suc (bufferChangesId (world s))) True,
                   InitializeEntities]\<rparr>\<rparr>)"
  proof (intro allI impI)
    fix v2
    assume "vcs_checkout G b v1 = (Inr (), v2)"
    then have "vcs_checkout G b (vcs (world s1)) = (Inr (), v2)"
      by (simp add: s1_def)
    from handleCheckout_resolved [OF this, of p] show "handleCheckout G p b s1 =
        errorHandler (refreshStateM G None)
          (s\<lparr>world := (world s)
               \<lparr>bufferChangesId := Suc (bufferChangesId (world s)), vcs := v2,
                trace := trace (world s) @
                  [Vcs (Merge b), BufferChanges (Suc (bufferChangesId (world s))),
                   Vcs (Checkout b), TrackSegmentEvent ''checkout_branch'' None,
                   FlushChanges (Suc (bufferChangesId (world s))) True,
                   InitializeEntities]\<rparr>\<rparr>)"
      by (simp add: s1_def)
  qed
  from first second show ?thesis
    by (simp add: Let_def s1_def)
qed

lemma handleMerge_then_checkout_example:
  "vcs_merge scriptedVCS ''feature'' (vcs (world (exampleModal exampleRepo))) =
     (Inr (), exampleRepo) \<and>
   vcs_checkout scriptedVCS ''feature'' exampleRepo =
     (Inr (), exampleRepo\<lparr>repo_branch := ''feature''\<rparr>) \<and>
   trace (world (snd (handleMerge scriptedVCS exampleModalProps ''feature''
     (exampleModal exampleRepo)))) =
     [Vcs (Merge ''feature''), BufferChanges 1, Vcs (Checkout ''feature''),
      TrackSegmentEvent ''checkout_branch'' None, FlushChanges 1 True, InitializeEntities,
      Vcs GetBranch, Vcs ListBranches, Vcs ListRemoteBranches,
      TrackSegmentEvent ''merge_branch'' None]"
proof -
  have h: "vcs_merge scriptedVCS ''feature'' (vcs (world (exampleModal exampleRepo))) =
             (Inr (), exampleRepo)"
    by (simp add: example_defs)
  have c: "vcs_checkout scriptedVCS ''feature'' exampleRepo =
             (Inr (), exampleRepo\<lparr>repo_branch := ''feature''\<rparr>)"
    by (simp add: example_defs)
  show ?thesis
    using h c handleMerge_then_checkout [OF h, of exampleModalProps]
    by (simp add: Let_def example_defs errorHandler_def refreshStateM_def async_defs)
qed

text \<open>
  C5. The claim asks for the whole checkout sequence after every merge that the engine
  accepts. \<^verbatim>\<open>_handleMerge\<close> reaches it through \<^verbatim>\<open>_handleCheckout\<close>, and so shares its
  defect (C1): on the engine whose checkout rejects, \<^verbatim>\<open>vcs.merge('feature')\<close> resolves, the
  buffer 1 is opened, \<^verbatim>\<open>vcs.checkout('feature')\<close> rejects, the message becomes the error
  notice, and the merge is recorded. The buffer is not flushed, the entities are not
  initialised again and the state is not refreshed.
\<close>

theorem handleMerge_rejected_checkout_leaves_buffer:
  "fst (vcs_merge checkoutRejectingVCS ''feature''
          (vcs (world (exampleModal exampleRepo)))) = Inr () \<and>
   fst (handleMerge checkoutRejectingVCS exampleModalProps ''feature''
          (exampleModal exampleRepo)) = Inr () \<and>
   trace (world (snd (handleMerge checkoutRejectingVCS exampleModalProps ''feature''
          (exampleModal exampleRepo)))) =
     [Vcs (Merge ''feature''), BufferChanges 1, Vcs (Checkout ''feature''),
      TrackSegmentEvent ''merge_branch'' None] \<and>
   error (state (snd (handleMerge checkoutRejectingVCS exampleModalProps ''feature''
          (exampleModal exampleRepo)))) = ''local changes would be lost''"
  by (simp add: handleMerge_def handleCheckout_def errorHandler_def async_defs Let_def
      checkoutRejectingVCS_def example_defs)

text \<open>The refresh of the modal and its checkout call \<^verbatim>\<open>vcs.fetch\<close> nowhere.\<close>

lemma fetches_append: "fetches (xs @ ys) = fetches xs @ fetches ys"
  by (simp add: fetches_def map_filter_def)

lemma refreshStateM_fetches:
  "fetches (trace (world (snd (refreshStateM G n s)))) = fetches (trace (world s))"
proof -
  obtain r1 v1 where r1: "vcs_getBranch G (vcs (world s)) = (r1, v1)"
    by fastforce
  obtain r2 v2 where r2: "vcs_listBranches G v1 = (r2, v2)"
    by fastforce
  obtain r3 v3 where r3: "vcs_listRemoteBranches G v2 = (r3, v3)"
    by fastforce
  show ?thesis
    using r1 r2 r3
    by (cases r1; cases r2; cases r3)
       (simp_all add: refreshStateM_def async_defs fetches_append,
        simp_all add: fetches_def fetchOf_def)
qed

lemma errorHandler_trace:
  "trace (world (snd (errorHandler cb s))) = trace (world (snd (cb s)))"
  by (simp add: errorHandler_def tryCatch_def setState_def split: prod.splits sum.splits)

lemma errorHandler_resolves: "fst (errorHandler cb s) = Inr ()"
  by (simp add: errorHandler_def tryCatch_def setState_def split: prod.splits sum.splits)

lemma handleCheckout_resolves: "fst (handleCheckout G p b s) = Inr ()"
  by (simp add: handleCheckout_def errorHandler_resolves)

lemma handleCheckout_fetches:
  "fetches (trace (world (snd (handleCheckout G p b s)))) = fetches (trace (world s))"
proof -
  obtain r v1 where r: "vcs_checkout G b (vcs (world s)) = (r, v1)"
    by fastforce
  show ?thesis
  proof (cases r)
    case (Inl err)
    with r handleCheckout_rejected [of G b s err v1 p] show ?thesis
      by (simp add: fetches_append) (simp add: fetches_def fetchOf_def)
  next
    case (Inr u)
    with r handleCheckout_resolved [of G b s v1 p] show ?thesis
      by (simp add: errorHandler_trace refreshStateM_fetches fetches_append)
         (simp add: fetches_def fetchOf_def)
  qed
qed

text \<open>
  C7. \<^verbatim>\<open>_handleRemoteCheckout(b)\<close> starts with \<^verbatim>\<open>vcs.fetch(true, 20, k)\<close>, \<open>k\<close> the
  credentials of the repository; when the fetch resolves, it goes on with exactly what
  \<^verbatim>\<open>_handleCheckout(b)\<close> does from there, and when it rejects no checkout follows. That
  fetch is the only one of the action. \<^verbatim>\<open>show\<close>, which opens the branches view, calls
  \<^verbatim>\<open>vcs.fetch(false, 1, k)\<close> once its first refresh has resolved, and no other fetch.
\<close>

theorem remote_checkout_fetch_depth:
  "let k = credentials (gitRepositoryM p);
       fetched = vcs_fetch G True 20 k (vcs (world s));
       s1 = s\<lparr>world := (world s)\<lparr>vcs := snd fetched,
                                   trace := trace (world s) @ [Vcs (Fetch True 20 k)]\<rparr>\<rparr>
   in handleRemoteCheckout G p b s =
        (case fst fetched of
           Inr u \<Rightarrow> handleCheckout G p b s1
         | Inl err \<Rightarrow> (Inr (), s1\<lparr>state := (state s1)\<lparr>error := err_message err\<rparr>\<rparr>)) \<and>
      fetches (trace (world (snd (handleRemoteCheckout G p b s)))) =
        fetches (trace (world s)) @ [(True, 20, k)] \<and>
      fetches (trace (world (snd (showM G p options s)))) =
        fetches (trace (world s)) @
        (if fst (refreshStateM G (Some []) s) = Inr () then [(False, 1, k)] else [])"
proof -
  define k where "k = credentials (gitRepositoryM p)"
  obtain r v1 where r: "vcs_fetch G True 20 k (vcs (world s)) = (r, v1)"
    by fastforce
  define s1 where
    "s1 = s\<lparr>world := (world s)\<lparr>vcs := v1, trace := trace (world s) @ [Vcs (Fetch True 20 k)]\<rparr>\<rparr>"
  have one: "fetches (trace (world s1)) = fetches (trace (world s)) @ [(True, 20, k)]"
    by (simp add: s1_def fetches_append) (simp add: fetches_def fetchOf_def)
  have remote: "handleRemoteCheckout G p b s =
      (case r of
         Inr u \<Rightarrow> handleCheckout G p b s1
       | Inl err \<Rightarrow> (Inr (), s1\<lparr>state := (state s1)\<lparr>error := err_message err\<rparr>\<rparr>))"
  proof (cases r)
    case (Inl err)
    with r show ?thesis
      by (simp add: handleRemoteCheckout_def errorHandler_def async_defs s1_def k_def)
  next
    case (Inr u)
    obtain s2 where s2: "handleCheckout G p b s1 = (Inr (), s2)"
      using handleCheckout_resolves [of G p b s1]
      by (cases "handleCheckout G p b s1") auto
    with r Inr show ?thesis
      by (simp add: handleRemoteCheckout_def errorHandler_def tryCatch_def await_def
          engine_def s1_def k_def)
  qed
  have remote_fetches: "fetches (trace (world (snd (handleRemoteCheckout G p b s)))) =
      fetches (trace (world s)) @ [(True, 20, k)]"
    using remote one by (cases r) (simp_all add: handleCheckout_fetches)
  have shown: "fetches (trace (world (snd (showM G p options s)))) =
      fetches (trace (world s)) @
      (if fst (refreshStateM G (Some []) s) = Inr () then [(False, 1, k)] else [])"
  proof -
    obtain q s' where q: "refreshStateM G (Some []) s = (q, s')"
      by fastforce
    have s': "fetches (trace (world s')) = fetches (trace (world s))"
      using refreshStateM_fetches [of G "Some []" s] q by simp
    show ?thesis
    proof (cases q)
      case (Inl err)
      with q s' show ?thesis
        by (simp add: showM_def await_def)
    next
      case (Inr u)
      obtain f v2 where f: "vcs_fetch G False 1 k (vcs (world s')) = (f, v2)"
        by fastforce
      define s2 where
        "s2 = s'\<lparr>state := (state s')\<lparr>onHide := options\<rparr>,
                world := (world s')\<lparr>vcs := v2,
                  trace := trace (world s') @
                    [ModalShow, SetTimeoutFocus 100, Vcs (Fetch False 1 k)]\<rparr>\<rparr>"
      have s2: "fetches (trace (world s2)) = fetches (trace (world s)) @ [(False, 1, k)]"
        using s' by (simp add: s2_def fetches_append)
          (simp add: fetches_def fetchOf_def)
      have "showM G p options s =
              (case f of Inl err \<Rightarrow> (Inl err, s2) | Inr u \<Rightarrow> refreshStateM G None s2)"
        using q Inr f
        by (cases f) (simp_all add: showM_def await_def setState_def emit_def engine_def
            s2_def k_def)
      with q Inr s2 show ?thesis
        by (cases f) (simp_all add: refreshStateM_fetches)
    qed
  qed
  have fst_r: "fst (vcs_fetch G True 20 k (vcs (world s))) = r"
    and snd_r: "snd (vcs_fetch G True 20 k (vcs (world s))) = v1"
    using r by simp_all
  show ?thesis
    unfolding Let_def k_def [symmetric] fst_r snd_r s1_def [symmetric]
    using remote remote_fetches shown by simp
qed

theorem remote_checkout_fetch_depth_witness:
  "trace (world (snd (handleRemoteCheckout scriptedVCS exampleModalProps ''hotfix''
     (exampleModal exampleRepo)))) =
     [Vcs (Fetch True 20 ''token''), BufferChanges 1, Vcs (Checkout ''hotfix''),
      TrackSegmentEvent ''checkout_branch'' None, FlushChanges 1 True, InitializeEntities,
      Vcs GetBranch, Vcs ListBranches, Vcs ListRemoteBranches] \<and>
   fetches (trace (world (snd (showM scriptedVCS exampleModalProps None
     (exampleModal exampleRepo))))) = [(False, 1, ''token'')]"
  using remote_checkout_fetch_depth [of exampleModalProps scriptedVCS
      "exampleModal exampleRepo" "''hotfix''" None]
  by (simp add: Let_def example_defs handleCheckout_def errorHandler_def refreshStateM_def
      async_defs fetches_def fetchOf_def)

subsection \<open>Errors at the boundary of the handlers\<close>

lemma refreshState_keeps_trace:
  "e \<in> set (trace (world s)) \<Longrightarrow> e \<in> set (trace (world (snd (refreshState G p s))))"
proof -
  assume e: "e \<in> set (trace (world s))"
  obtain r1 v1 where r1: "vcs_getBranch G (vcs (world s)) = (r1, v1)"
    by fastforce
  obtain r2 v2 where r2: "vcs_listBranches G v1 = (r2, v2)"
    by fastforce
  obtain r3 v3 where r3: "vcs_log G v2 = (r3, v3)"
    by fastforce
  show ?thesis
    using e r1 r2 r3
    by (cases r1; cases r2; cases r3)
       (simp_all add: refreshState_def async_defs Let_def)
qed

lemma errorHandler_reports:
  "fst (cb s) = Inl err \<Longrightarrow> error (state (snd (errorHandler cb s))) = err_message err"
  by (cases "cb s") (simp add: errorHandler_def tryCatch_def setState_def)

text \<open>
  C8, as the code has it. The four actions of the branches modal never reject, and the
  error of their engine call becomes the error notice of the modal. Pull and push with a
  repository configured never reject: an error of \<^verbatim>\<open>pull\<close>, \<^verbatim>\<open>canPush\<close> or \<^verbatim>\<open>push\<close> is
  shown with \<^verbatim>\<open>showError\<close>, and a rejected push with the force-push alert. The checkout of
  the dropdown shows an error of \<^verbatim>\<open>vcs.checkout\<close> with \<^verbatim>\<open>showError\<close>. With no repository
  configured, pull and push throw their error to the caller: the promise rejects and
  nothing is shown.
\<close>

theorem handlers_report_engine_errors:
  assumes "gitRepository p = Some repo" and "gitRepository q = None"
  shows "fst (handleCheckout G pm b sm) = Inr () \<and>
         fst (handleMerge G pm b sm) = Inr () \<and>
         fst (handleDelete G pm b sm) = Inr () \<and>
         fst (handleRemoteCheckout G pm b sm) = Inr () \<and>
         (\<forall>err. fst (vcs_checkout G b (vcs (world sm))) = Inl err \<longrightarrow>
            error (state (snd (handleCheckout G pm b sm))) = err_message err) \<and>
         (\<forall>err. fst (vcs_merge G b (vcs (world sm))) = Inl err \<longrightarrow>
            error (state (snd (handleMerge G pm b sm))) = err_message err) \<and>
         (\<forall>err. fst (vcs_deleteBranch G b (vcs (world sm))) = Inl err \<longrightarrow>
            error (state (snd (handleDelete G pm b sm))) = err_message err) \<and>
         (\<forall>err. fst (vcs_fetch G True 20 (credentials (gitRepositoryM pm)) (vcs (world sm))) =
                  Inl err \<longrightarrow>
            error (state (snd (handleRemoteCheckout G pm b sm))) = err_message err) \<and>
         fst (handlePull G p s) = Inr () \<and>
         fst (handlePush G p force s) = Inr () \<and>
         (\<forall>err. fst (vcs_pull G (credentials repo) (vcs (world s))) = Inl err \<longrightarrow>
            ShowError ''Error Pulling Repository'' err
              \<in> set (trace (world (snd (handlePull G p s))))) \<and>
         (\<forall>err. fst (vcs_canPush G (credentials repo) (vcs (world s))) = Inl err \<longrightarrow>
            ShowError ''Error Pushing Repository'' err
              \<in> set (trace (world (snd (handlePush G p force s))))) \<and>
         (\<forall>err v1. vcs_canPush G (credentials repo) (vcs (world s)) = (Inr True, v1) \<and>
                    fst (vcs_push G (credentials repo) force v1) = Inl err \<longrightarrow>
            (if err_code err = Some ''PushRejectedError''
             then ShowAlert ''Push Rejected'' ''Do you want to force push?''
                    (Some ''Force Push'') True (Some (HandlePush True))
             else ShowError ''Error Pushing Repository'' err)
              \<in> set (trace (world (snd (handlePush G p force s))))) \<and>
         (\<forall>err. fst (vcs_checkout G b (vcs (world s))) = Inl err \<longrightarrow>
            ShowError ''Checkout Error'' err
              \<in> set (trace (world (snd (handleCheckoutBranch G p b s))))) \<and>
         handlePull G q s =
           (Inl (JsError None ''Tried to pull without configuring git repo''),
            s\<lparr>state := (state s)\<lparr>loadingPull := True\<rparr>\<rparr>) \<and>
         handlePush G q force s =
           (Inl (JsError None ''Tried to push without configuring git repo''),
            s\<lparr>state := (state s)\<lparr>loadingPush := True\<rparr>\<rparr>)"
proof -
  have m1: "fst (handleCheckout G pm b sm) = Inr ()"
    by (simp add: handleCheckout_def errorHandler_resolves)
  have m2: "fst (handleMerge G pm b sm) = Inr ()"
    by (simp add: handleMerge_def errorHandler_resolves)
  have m3: "fst (handleDelete G pm b sm) = Inr ()"
    by (simp add: handleDelete_def errorHandler_resolves)
  have m4: "fst (handleRemoteCheckout G pm b sm) = Inr ()"
    by (simp add: handleRemoteCheckout_def errorHandler_resolves)
  have e1: "\<forall>err. fst (vcs_checkout G b (vcs (world sm))) = Inl err \<longrightarrow>
      error (state (snd (handleCheckout G pm b sm))) = err_message err"
  proof (intro allI impI)
    fix err
    assume "fst (vcs_checkout G b (vcs (world sm))) = Inl err"
    then show "error (state (snd (handleCheckout G pm b sm))) = err_message err"
      unfolding handleCheckout_def
      by (intro errorHandler_reports)
         (cases "vcs_checkout G b (vcs (world sm))", simp add: async_defs Let_def)
  qed
  have e2: "\<forall>err. fst (vcs_merge G b (vcs (world sm))) = Inl err \<longrightarrow>
      error (state (snd (handleMerge G pm b sm))) = err_message err"
  proof (intro allI impI)
    fix err
    assume "fst (vcs_merge G b (vcs (world sm))) = Inl err"
    then show "error (state (snd (handleMerge G pm b sm))) = err_message err"
      unfolding handleMerge_def
      by (intro errorHandler_reports)
         (cases "vcs_merge G b (vcs (world sm))", simp add: await_def engine_def)
  qed
  have e3: "\<forall>err. fst (vcs_deleteBranch G b (vcs (world sm))) = Inl err \<longrightarrow>
      error (state (snd (handleDelete G pm b sm))) = err_message err"
  proof (intro allI impI)
    fix err
    assume "fst (vcs_deleteBranch G b (vcs (world sm))) = Inl err"
    then show "error (state (snd (handleDelete G pm b sm))) = err_message err"
      unfolding handleDelete_def
      by (intro errorHandler_reports)
         (cases "vcs_deleteBranch G b (vcs (world sm))", simp add: await_def engine_def)
  qed
  have e4: "\<forall>err. fst (vcs_fetch G True 20 (credentials (gitRepositoryM pm)) (vcs (world sm))) =
                  Inl err \<longrightarrow>
      error (state (snd (handleRemoteCheckout G pm b sm))) = err_message err"
  proof (intro allI impI)
    fix err
    assume "fst (vcs_fetch G True 20 (credentials (gitRepositoryM pm)) (vcs (world sm))) = Inl err"
    then show "error (state (snd (handleRemoteCheckout G pm b sm))) = err_message err"
      unfolding handleRemoteCheckout_def
      by (intro errorHandler_reports)
         (cases "vcs_fetch G True 20 (credentials (gitRepositoryM pm)) (vcs (world sm))",
          simp add: await_def engine_def)
  qed
  obtain rp vp where rp: "vcs_pull G (credentials repo) (vcs (world s)) = (rp, vp)"
    by fastforce
  have d1: "fst (handlePull G p s) = Inr ()"
    using assms(1) rp by (cases rp) (simp_all add: handlePull_def async_defs Let_def)
  have d3: "\<forall>err. fst (vcs_pull G (credentials repo) (vcs (world s))) = Inl err \<longrightarrow>
      ShowError ''Error Pulling Repository'' err \<in> set (trace (world (snd (handlePull G p s))))"
    using assms(1) rp by (cases rp) (simp_all add: handlePull_def async_defs Let_def)
  obtain c v1 where c: "vcs_canPush G (credentials repo) (vcs (world s)) = (c, v1)"
    by fastforce
  obtain r v2 where r: "vcs_push G (credentials repo) force v1 = (r, v2)"
    by fastforce
  have push: "fst (handlePush G p force s) = Inr () \<and>
      (\<forall>err. c = Inl err \<longrightarrow>
         ShowError ''Error Pushing Repository'' err
           \<in> set (trace (world (snd (handlePush G p force s))))) \<and>
      (\<forall>err. c = Inr True \<and> r = Inl err \<longrightarrow>
         (if err_code err = Some ''PushRejectedError''
          then ShowAlert ''Push Rejected'' ''Do you want to force push?''
                 (Some ''Force Push'') True (Some (HandlePush True))
          else ShowError ''Error Pushing Repository'' err)
           \<in> set (trace (world (snd (handlePush G p force s)))))"
  proof (cases c)
    case (Inl e)
    with assms(1) c show ?thesis
      by (simp add: handlePush_def async_defs Let_def)
  next
    case (Inr canPush)
    show ?thesis
    proof (cases canPush)
      case False
      with assms(1) c Inr show ?thesis
        by (simp add: handlePush_def async_defs Let_def)
    next
      case True
      with assms(1) c r Inr show ?thesis
        by (cases r) (simp_all add: handlePush_def async_defs Let_def)
    qed
  qed
  have d2: "fst (handlePush G p force s) = Inr ()"
    using push by simp
  have d4: "\<forall>err. fst (vcs_canPush G (credentials repo) (vcs (world s))) = Inl err \<longrightarrow>
      ShowError ''Error Pushing Repository'' err
        \<in> set (trace (world (snd (handlePush G p force s))))"
    using push c by simp
  have d5: "\<forall>err v1. vcs_canPush G (credentials repo) (vcs (world s)) = (Inr True, v1) \<and>
                    fst (vcs_push G (credentials repo) force v1) = Inl err \<longrightarrow>
      (if err_code err = Some ''PushRejectedError''
       then ShowAlert ''Push Rejected'' ''Do you want to force push?''
              (Some ''Force Push'') True (Some (HandlePush True))
       else ShowError ''Error Pushing Repository'' err)
        \<in> set (trace (world (snd (handlePush G p force s))))"
    using push c r by auto
  have d6: "\<forall>err. fst (vcs_checkout G b (vcs (world s))) = Inl err \<longrightarrow>
      ShowError ''Checkout Error'' err
        \<in> set (trace (world (snd (handleCheckoutBranch G p b s))))"
  proof (intro allI impI)
    fix err
    assume "fst (vcs_checkout G b (vcs (world s))) = Inl err"
    then show "ShowError ''Checkout Error'' err
        \<in> set (trace (world (snd (handleCheckoutBranch G p b s))))"
      unfolding handleCheckoutBranch_always_flushes Let_def
      by (intro refreshState_keeps_trace) simp
  qed
  have u1: "handlePull G q s =
      (Inl (JsError None ''Tried to pull without configuring git repo''),
       s\<lparr>state := (state s)\<lparr>loadingPull := True\<rparr>\<rparr>)"
    using assms(2) by (simp add: handlePull_def await_def setState_def throw_def)
  have u2: "handlePush G q force s =
      (Inl (JsError None ''Tried to push without configuring git repo''),
       s\<lparr>state := (state s)\<lparr>loadingPush := True\<rparr>\<rparr>)"
    using assms(2) by (simp add: handlePush_def await_def setState_def throw_def)
  from m1 m2 m3 m4 e1 e2 e3 e4 d1 d2 d3 d4 d5 d6 u1 u2 show ?thesis
    by blast
qed

text \<open>
  The claim C8 as it is written fails where no repository is configured:
  \<^verbatim>\<open>_handlePull\<close> sets \<^verbatim>\<open>loadingPull\<close> and throws. The promise rejects with the error, and
  no call that would show it has been made.
\<close>

theorem handlePull_unconfigured_rejects:
  "fst (handlePull scriptedVCS unconfiguredProps (exampleDropdown exampleRepo)) =
     Inl (JsError None ''Tried to pull without configuring git repo'') \<and>
   trace (world (snd (handlePull scriptedVCS unconfiguredProps (exampleDropdown exampleRepo)))) = []"
  by (simp add: handlePull_def await_def setState_def throw_def example_defs)

theorem handlers_report_engine_errors_witness:
  "gitRepository exampleProps = Some \<lparr>credentials = ''token''\<rparr> \<and>
   gitRepository unconfiguredProps = None \<and>
   fst (vcs_merge scriptedVCS ''feature''
          (vcs (world (exampleModal (exampleRepo\<lparr>repo_failure := Some networkError\<rparr>))))) =
     Inl networkError \<and>
   fst (handleMerge scriptedVCS exampleModalProps ''feature''
          (exampleModal (exampleRepo\<lparr>repo_failure := Some networkError\<rparr>))) = Inr () \<and>
   error (state (snd (handleMerge scriptedVCS exampleModalProps ''feature''
          (exampleModal (exampleRepo\<lparr>repo_failure := Some networkError\<rparr>))))) =
     ''connection refused'' \<and>
   fst (vcs_pull scriptedVCS ''token''
          (vcs (world (exampleDropdown (exampleRepo\<lparr>repo_failure := Some networkError\<rparr>))))) =
     Inl networkError \<and>
   ShowError ''Error Pulling Repository'' networkError
     \<in> set (trace (world (snd (handlePull scriptedVCS exampleProps
          (exampleDropdown (exampleRepo\<lparr>repo_failure := Some networkError\<rparr>)))))) \<and>
   vcs_canPush scriptedVCS ''token''
     (vcs (world (exampleDropdown (exampleRepo\<lparr>repo_diverged := True\<rparr>)))) =
     (Inr True, exampleRepo\<lparr>repo_diverged := True\<rparr>) \<and>
   fst (vcs_push scriptedVCS ''token'' False (exampleRepo\<lparr>repo_diverged := True\<rparr>)) =
     Inl pushRejected \<and>
   ShowAlert ''Push Rejected'' ''Do you want to force push?''
       (Some ''Force Push'') True (Some (HandlePush True))
     \<in> set (trace (world (snd (handlePush scriptedVCS exampleProps False
          (exampleDropdown (exampleRepo\<lparr>repo_diverged := True\<rparr>)))))) \<and>
   fst (handlePush scriptedVCS unconfiguredProps False
          (exampleDropdown (exampleRepo\<lparr>repo_diverged := True\<rparr>))) =
     Inl (JsError None ''Tried to push without configuring git repo'')"
proof -
  have h1: "gitRepository exampleProps = Some \<lparr>credentials = ''token''\<rparr>"
    by (simp add: exampleProps_def)
  have h2: "gitRepository unconfiguredProps = None"
    by (simp add: unconfiguredProps_def)
  have a: "fst (vcs_merge scriptedVCS ''feature''
          (vcs (world (exampleModal (exampleRepo\<lparr>repo_failure := Some networkError\<rparr>))))) =
     Inl networkError"
    by (simp add: example_defs)
  have b: "fst (vcs_pull scriptedVCS (credentials \<lparr>credentials = ''token''\<rparr>)
          (vcs (world (exampleDropdown (exampleRepo\<lparr>repo_failure := Some networkError\<rparr>))))) =
     Inl networkError"
    by (simp add: example_defs)
  have c: "vcs_canPush scriptedVCS (credentials \<lparr>credentials = ''token''\<rparr>)
     (vcs (world (exampleDropdown (exampleRepo\<lparr>repo_diverged := True\<rparr>)))) =
     (Inr True, exampleRepo\<lparr>repo_diverged := True\<rparr>)"
    by (simp add: example_defs)
  have d: "fst (vcs_push scriptedVCS (credentials \<lparr>credentials = ''token''\<rparr>) False
             (exampleRepo\<lparr>repo_diverged := True\<rparr>)) = Inl pushRejected"
    by (simp add: example_defs)
  have code: "err_code pushRejected = Some ''PushRejectedError''"
    by (simp add: pushRejected_def)
  note failing = handlers_report_engine_errors [OF h1 h2, where G = scriptedVCS
      and pm = exampleModalProps and b = "''feature''"
      and sm = "exampleModal (exampleRepo\<lparr>repo_failure := Some networkError\<rparr>)"
      and s = "exampleDropdown (exampleRepo\<lparr>repo_failure := Some networkError\<rparr>)"
      and force = False]
  note diverged = handlers_report_engine_errors [OF h1 h2, where G = scriptedVCS
      and pm = exampleModalProps and b = "''feature''"
      and sm = "exampleModal exampleRepo"
      and s = "exampleDropdown (exampleRepo\<lparr>repo_diverged := True\<rparr>)"
      and force = False]
  have merge_resolves: "fst (handleMerge scriptedVCS exampleModalProps ''feature''
          (exampleModal (exampleRepo\<lparr>repo_failure := Some networkError\<rparr>))) = Inr ()"
    using failing by blast
  have merge_notice: "error (state (snd (handleMerge scriptedVCS exampleModalProps ''feature''
          (exampleModal (exampleRepo\<lparr>repo_failure := Some networkError\<rparr>))))) =
     err_message networkError"
    using failing a by blast
  have pull_shown: "ShowError ''Error Pulling Repository'' networkError
     \<in> set (trace (world (snd (handlePull scriptedVCS exampleProps
          (exampleDropdown (exampleRepo\<lparr>repo_failure := Some networkError\<rparr>))))))"
    using failing b by blast
  have push_alert: "ShowAlert ''Push Rejected'' ''Do you want to force push?''
       (Some ''Force Push'') True (Some (HandlePush True))
     \<in> set (trace (world (snd (handlePush scriptedVCS exampleProps False
          (exampleDropdown (exampleRepo\<lparr>repo_diverged := True\<rparr>))))))"
  proof -
    from diverged have "\<forall>err v1.
        vcs_canPush scriptedVCS (credentials \<lparr>credentials = ''token''\<rparr>)
          (vcs (world (exampleDropdown (exampleRepo\<lparr>repo_diverged := True\<rparr>)))) = (Inr True, v1) \<and>
        fst (vcs_push scriptedVCS (credentials \<lparr>credentials = ''token''\<rparr>) False v1) = Inl err \<longrightarrow>
        (if err_code err = Some ''PushRejectedError''
         then ShowAlert ''Push Rejected'' ''Do you want to force push?''
                (Some ''Force Push'') True (Some (HandlePush True))
         else ShowError ''Error Pushing Repository'' err)
          \<in> set (trace (world (snd (handlePush scriptedVCS exampleProps False
                (exampleDropdown (exampleRepo\<lparr>repo_diverged := True\<rparr>))))))"
      by blast
    with c d have "(if err_code pushRejected = Some ''PushRejectedError''
         then ShowAlert ''Push Rejected'' ''Do you want to force push?''
                (Some ''Force Push'') True (Some (HandlePush True))
         else ShowError ''Error Pushing Repository'' pushRejected)
          \<in> set (trace (world (snd (handlePush scriptedVCS exampleProps False
                (exampleDropdown (exampleRepo\<lparr>repo_diverged := True\<rparr>))))))"
      by blast
    with code show ?thesis by simp
  qed
  have push_throws: "fst (handlePush scriptedVCS unconfiguredProps False
          (exampleDropdown (exampleRepo\<lparr>repo_diverged := True\<rparr>))) =
     Inl (JsError None ''Tried to push without configuring git repo'')"
    using diverged by simp
  from h1 h2 a b c d merge_resolves merge_notice pull_shown push_alert push_throws
  show ?thesis
    by (simp add: networkError_def)
qed

subsection \<open>What the two views offer\<close>

lemma isPushControl_simps:
  "isPushControl (DropdownButton t) = False"
  "isPushControl (DropdownDivider t) = False"
  "isPushControl (DropdownItem l None d) = False"
  "isPushControl (DropdownItem l (Some (HandlePush force)) d) = (\<not> d)"
  "isPushControl (DropdownItem l (Some HandleConfig) d) = False"
  "isPushControl (DropdownItem l (Some HandleManageBranches) d) = False"
  "isPushControl (DropdownItem l (Some (HandleCheckoutBranch b)) d) = False"
  "isPushControl (DropdownItem l (Some HandleCommit) d) = False"
  "isPushControl (DropdownItem l (Some HandlePull) d) = False"
  "isPushControl (DropdownItem l (Some HandleLog) d) = False"
  by (simp_all add: isPushControl_def)

lemma renderBranch_no_push: "\<not> list_ex isPushControl (map (renderBranch s) bs)"
  by (induction bs) (simp_all add: renderBranch_def isPushControl_simps)

text \<open>
  The claim C9 as it is written fails for a dropdown whose state holds a log with a commit
  while its engine is not initialized: the log is not empty and no push control is
  offered.
\<close>

theorem stale_log_without_push_control:
  "log (state staleDropdown) = [firstCommit] \<and>
   \<not> offersPush (render scriptedVCS staleDropdown)"
  by (simp add: staleDropdown_def Let_def refreshState_def async_defs truthy_def
      example_defs render_def renderButton_def offersPush_def isPushControl_simps)

text \<open>
  C9, as the code has it: the dropdown offers the push control exactly when its engine is
  initialized and the log of the last refresh has at least one entry. With the engine
  initialized, the control is withheld exactly when that log is empty.
\<close>

theorem push_control_offered_iff:
  "offersPush (render G s) = (vcs_isInitialized G (vcs (world s)) \<and> log (state s) \<noteq> [])"
  by (simp add: offersPush_def render_def renderButton_def isPushControl_simps
      renderBranch_no_push)

theorem push_control_offered_iff_witness:
  "offersPush (render scriptedVCS
     (snd (refreshState scriptedVCS exampleProps (exampleDropdown exampleRepo)))) \<and>
   log (state (snd (refreshState scriptedVCS exampleProps (exampleDropdown exampleRepo)))) =
     [firstCommit]"
  using push_control_offered_iff [of scriptedVCS
      "snd (refreshState scriptedVCS exampleProps (exampleDropdown exampleRepo))"]
  by (simp add: refreshState_def async_defs Let_def truthy_def example_defs)

lemma remoteCheckoutOffers_rows:
  "concat (map (\<lambda>(n, cb). case cb of HandleRemoteCheckout b \<Rightarrow> [b] | _ \<Rightarrow> [])
     (map (\<lambda>n. (n, HandleRemoteCheckout n)) xs)) = xs"
  by (induction xs) simp_all

lemma remoteCheckoutOffers_renderM:
  "remoteCheckoutOffers (renderM st) = remoteOnlyBranches st"
  by (simp add: remoteCheckoutOffers_def renderM_def remoteCheckoutOffers_rows del: map_map)

lemma count_list_filter:
  "count_list (filter P xs) x = (if P x then count_list xs x else 0)"
  by (induction xs) simp_all

text \<open>
  C10. After a refresh in which the engine lists the local branches \<open>ls\<close> and the remote
  branches \<open>rs\<close>, the branches the modal offers for a remote checkout are the remote
  branches that are not local: the same names as the set difference, in the order of
  \<open>rs\<close> and as often as in \<open>rs\<close>. The local rows are \<open>ls\<close>, and no branch has both a local
  row and a remote checkout.
\<close>

theorem remote_checkout_offers_difference:
  assumes "vcs_getBranch G (vcs (world s)) = (Inr b, v1)"
    and "vcs_listBranches G v1 = (Inr ls, v2)"
    and "vcs_listRemoteBranches G v2 = (Inr rs, v3)"
  shows "let v = renderM (state (snd (refreshStateM G n s)));
             offers = remoteCheckoutOffers v
         in set offers = set rs - set ls \<and>
            subseq offers rs \<and>
            (\<forall>x. count_list offers x = (if x \<in> set ls then 0 else count_list rs x)) \<and>
            map fst (localRows v) = ls \<and>
            set offers \<inter> set (map fst (localRows v)) = {}"
proof -
  define st where "st = state (snd (refreshStateM G n s))"
  have lists: "branchesM st = ls \<and> remoteBranches st = rs"
    using assms
    by (cases n) (simp_all add: st_def refreshStateM_def async_defs Let_def)
  have offers: "remoteCheckoutOffers (renderM st) = filter (\<lambda>x. x \<notin> set ls) rs"
    using lists by (simp add: remoteCheckoutOffers_renderM remoteOnlyBranches_def)
  have rows: "map fst (localRows (renderM st)) = ls"
    using lists by (simp add: renderM_def comp_def)
  have rows_set: "fst ` set (localRows (renderM st)) = set ls"
    using rows by (metis set_map)
  have "set (filter (\<lambda>x. x \<notin> set ls) rs) = set rs - set ls"
    by auto
  moreover have "subseq (filter (\<lambda>x. x \<notin> set ls) rs) rs"
    by simp
  moreover have "\<forall>x. count_list (filter (\<lambda>x. x \<notin> set ls) rs) x =
      (if x \<in> set ls then 0 else count_list rs x)"
    by (simp add: count_list_filter)
  moreover have "set (filter (\<lambda>x. x \<notin> set ls) rs) \<inter> set ls = {}"
    by auto
  ultimately show ?thesis
    using offers rows rows_set by (simp add: Let_def st_def)
qed

theorem remote_checkout_offers_difference_witness:
  "vcs_getBranch scriptedVCS (vcs (world (exampleModal exampleRepo))) =
     (Inr ''main'', exampleRepo) \<and>
   vcs_listBranches scriptedVCS exampleRepo = (Inr [''main'', ''feature''], exampleRepo) \<and>
   vcs_listRemoteBranches scriptedVCS exampleRepo =
     (Inr [''main'', ''hotfix'', ''feature'', ''release''], exampleRepo) \<and>
   remoteCheckoutOffers (renderM (state (snd (refreshStateM scriptedVCS None
     (exampleModal exampleRepo))))) = [''hotfix'', ''release''] \<and>
   set [''hotfix'', ''release''] =
     set [''main'', ''hotfix'', ''feature'', ''release''] - set [''main'', ''feature'']"
proof -
  have h1: "vcs_getBranch scriptedVCS (vcs (world (exampleModal exampleRepo))) =
              (Inr ''main'', exampleRepo)"
    by (simp add: example_defs)
  have h2: "vcs_listBranches scriptedVCS exampleRepo = (Inr [''main'', ''feature''], exampleRepo)"
    by (simp add: example_defs)
  have h3: "vcs_listRemoteBranches scriptedVCS exampleRepo =
              (Inr [''main'', ''hotfix'', ''feature'', ''release''], exampleRepo)"
    by (simp add: example_defs)
  have offers: "remoteCheckoutOffers (renderM (state (snd (refreshStateM scriptedVCS None
       (exampleModal exampleRepo))))) = [''hotfix'', ''release'']"
    by (simp add: refreshStateM_def async_defs Let_def example_defs remoteCheckoutOffers_def
        renderM_def remoteOnlyBranches_def)
  from remote_checkout_offers_difference [OF h1 h2 h3, of None]
  have "set (remoteCheckoutOffers (renderM (state (snd (refreshStateM scriptedVCS None
       (exampleModal exampleRepo)))))) =
     set [''main'', ''hotfix'', ''feature'', ''release''] - set [''main'', ''feature'']"
    by (simp add: Let_def)
  with h1 h2 h3 offers show ?thesis
    by simp
qed

end
